theory Spec2Isabelle
  imports Main
begin

section \<open>The shopping-cart front end (shoppingcart/ui/main.go)\<close>

text \<open>
  The front end is a Go HTTP server with two handlers. Both talk to a workflow
  engine through a client object created once at start-up, and both address the
  engine with one package-level session identifier.

  The client, the engine behind it and the package \<open>shoppingcart\<close> (the cart
  workflow, its state type and two string constants) are not part of
  \<open>main.go\<close>. The handlers are therefore embedded over an arbitrary client: a
  record of the three operations \<open>main.go\<close> calls, each a function on the
  state of the outside world. Everything \<open>main.go\<close> itself decides (which
  operation is called, with which arguments, and what happens to its result) is
  written out below.
\<close>

subsection \<open>Data\<close>

text \<open>
  \<open>shoppingcart.CartState\<close>, as \<open>main.go\<close> uses it: one field \<open>Items\<close> of Go type
  \<open>map[string]int\<close>. Quantities are unbounded integers here; the 64-bit
  wrap-around of Go's \<open>int\<close> is out of reach of a cart that grows by one per
  request.
\<close>

record CartState =
  Items :: "string \<rightharpoonup> int"

text \<open>The zero variable of line 146: \<open>CartState{Items: make(map[string]int)}\<close>.\<close>

definition empty_cart :: CartState where
  "empty_cart = \<lparr>Items = Map.empty\<rparr>"

text \<open>
  The two error conditions the specification names for a command that cannot be
  completed. In Go they are values of the interface type \<open>error\<close>.
\<close>

datatype error = SessionClosed | DispatchFailure

section \<open>The cart actor\<close>

text \<open>
  Modelled from the spec: the cart actor is \<open>shoppingcart.CartWorkflow\<close>, which
  \<open>main.go\<close> only names (line 125). Its commands follow section 4.1 of the
  specification word for word.
\<close>

datatype Lifecycle = Active | CheckedOut

datatype command = CmdAdd string | CmdRemove string | CmdList | CmdCheckout

text \<open>
  Modelled from the spec: \<open>add(itemID)\<close> increments \<open>items[itemID]\<close> by 1,
  inserting it at quantity 1 if absent.
\<close>

definition cart_add :: "CartState \<Rightarrow> string \<Rightarrow> CartState" where
  "cart_add s itemID =
     s\<lparr>Items := (Items s)(itemID \<mapsto>
          (case Items s itemID of None \<Rightarrow> 1 | Some q \<Rightarrow> q + 1))\<rparr>"

text \<open>
  Modelled from the spec: \<open>remove(itemID)\<close> decrements \<open>items[itemID]\<close> by 1 if
  present; if the resulting quantity is 0 the key is deleted; if \<open>itemID\<close> is
  absent nothing changes.
\<close>

definition cart_remove :: "CartState \<Rightarrow> string \<Rightarrow> CartState" where
  "cart_remove s itemID =
     (case Items s itemID of
        None \<Rightarrow> s
      | Some q \<Rightarrow>
          if q - 1 = 0 then s\<lparr>Items := (Items s)(itemID := None)\<rparr>
          else s\<lparr>Items := (Items s)(itemID \<mapsto> q - 1)\<rparr>)"

text \<open>The quantity a snapshot shows for an item: 0 when the key is absent.\<close>

definition quantity :: "CartState \<Rightarrow> string \<Rightarrow> int" where
  "quantity s itemID = (case Items s itemID of None \<Rightarrow> 0 | Some q \<Rightarrow> q)"

text \<open>The invariant of section 3: every value in \<open>items\<close> is a positive integer.\<close>

definition positive_items :: "CartState \<Rightarrow> bool" where
  "positive_items s = (\<forall>q \<in> ran (Items s). 0 < q)"

text \<open>
  Modelled from the spec: the actor owns a cart state and a lifecycle state.
  Commands submitted without waiting (checkout) sit in \<open>queue\<close>, oldest first,
  until the actor applies them; \<open>run\<close> tells one actor instance from another.
\<close>

record CartActor =
  cart :: CartState
  lifecycle :: Lifecycle
  queue :: "command list"
  run :: nat

text \<open>
  Modelled from the spec: one command applied by the actor. The four commands
  are accepted only in \<open>Active\<close>; an actor that has reached \<open>CheckedOut\<close> answers
  every command with \<open>SessionClosed\<close> and changes nothing. \<open>add\<close> and \<open>remove\<close>
  return the snapshot after the mutation, \<open>list\<close> the current snapshot.
\<close>

definition apply_command :: "CartActor \<Rightarrow> command \<Rightarrow> (error + CartState) \<times> CartActor" where
  "apply_command a c =
     (case lifecycle a of
        CheckedOut \<Rightarrow> (Inl SessionClosed, a)
      | Active \<Rightarrow>
          (case c of
             CmdAdd itemID \<Rightarrow>
               (Inr (cart_add (cart a) itemID), a\<lparr>cart := cart_add (cart a) itemID\<rparr>)
           | CmdRemove itemID \<Rightarrow>
               (Inr (cart_remove (cart a) itemID), a\<lparr>cart := cart_remove (cart a) itemID\<rparr>)
           | CmdList \<Rightarrow> (Inr (cart a), a)
           | CmdCheckout \<Rightarrow> (Inr (cart a), a\<lparr>lifecycle := CheckedOut\<rparr>)))"

text \<open>
  Modelled from the spec: a new actor is \<open>Active\<close> with empty cart state and
  nothing pending.
\<close>

definition new_actor :: "nat \<Rightarrow> CartActor" where
  "new_actor r = \<lparr>cart = empty_cart, lifecycle = Active, queue = [], run = r\<rparr>"

text \<open>
  A history of commands applied one after the other to an actor, with every
  answer the actor gave (the snapshots its callers observed).
\<close>

fun apply_commands :: "CartActor \<Rightarrow> command list \<Rightarrow> (error + CartState) list \<times> CartActor" where
  "apply_commands a [] = ([], a)"
| "apply_commands a (c # cs) =
     (case apply_command a c of
        (res, a') \<Rightarrow> (case apply_commands a' cs of (rs, a'') \<Rightarrow> (res # rs, a'')))"

section \<open>The actor-hosting engine\<close>

text \<open>
  Modelled from the spec: the Actor Directory of section 4.2 and the serial
  command queue of sections 4.3 and 5. They stand for the workflow service that
  \<open>workflowClient\<close> talks to, which is not part of \<open>main.go\<close>. The directory maps
  a session identifier to its actor; \<open>created\<close> counts the actors ever
  constructed and numbers them.
\<close>

record Engine =
  directory :: "string \<rightharpoonup> CartActor"
  created :: nat

definition empty_engine :: Engine where
  "empty_engine = \<lparr>directory = Map.empty, created = 0\<rparr>"

text \<open>
  Modelled from the spec: create-or-attach. If no actor exists for the
  identifier, a new \<open>Active\<close> actor with empty cart state is constructed and
  registered; if one exists, it is returned whatever its lifecycle state.
\<close>

definition create_or_attach :: "Engine \<Rightarrow> string \<Rightarrow> CartActor \<times> Engine" where
  "create_or_attach e sid =
     (case directory e sid of
        Some a \<Rightarrow> (a, e)
      | None \<Rightarrow>
          (new_actor (created e),
           e\<lparr>directory := (directory e)(sid \<mapsto> new_actor (created e)),
             created := created e + 1\<rparr>))"

text \<open>
  Modelled from the spec: the actor applies what is pending in its queue, in
  submission order, before it turns to a later command.
\<close>

definition drain :: "CartActor \<Rightarrow> CartActor" where
  "drain a = snd (apply_commands (a\<lparr>queue := []\<rparr>) (queue a))"

section \<open>The client interface used by main.go\<close>

text \<open>
  The option structs of lines 117 to 131, with the fields \<open>main.go\<close> sets. The
  conflict policies and update stages are the enumerations of the client
  library; \<open>main.go\<close> uses one value of each.
\<close>

datatype ConflictPolicy =
    WORKFLOW_ID_CONFLICT_POLICY_UNSPECIFIED
  | WORKFLOW_ID_CONFLICT_POLICY_FAIL
  | WORKFLOW_ID_CONFLICT_POLICY_USE_EXISTING
  | WORKFLOW_ID_CONFLICT_POLICY_TERMINATE_EXISTING

datatype WorkflowUpdateStage =
    WorkflowUpdateStageUnspecified
  | WorkflowUpdateStageAdmitted
  | WorkflowUpdateStageAccepted
  | WorkflowUpdateStageCompleted

datatype Workflow = CartWorkflow

record StartWorkflowOptions =
  ID :: string
  TaskQueue :: string
  WorkflowIDConflictPolicy :: ConflictPolicy

record WithStartWorkflowOperation =
  Options :: StartWorkflowOptions
  WorkflowFunc :: Workflow

record UpdateWorkflowOptions =
  UpdateName :: string
  WaitForStage :: WorkflowUpdateStage
  Args :: "string list"

record UpdateWithStartWorkflowOptions =
  StartWorkflowOperation :: WithStartWorkflowOperation
  UpdateOptions :: UpdateWorkflowOptions

text \<open>
  The three client operations \<open>main.go\<close> calls. \<open>'w\<close> is the state of the world
  behind the client, \<open>'h\<close> the type of update handles. An operation returns its
  Go result together with the world it leaves behind; a Go \<open>error\<close> result that
  is \<open>nil\<close> is \<open>None\<close> or the right injection.
\<close>

record ('w, 'h) Client =
  UpdateWithStartWorkflow :: "UpdateWithStartWorkflowOptions \<Rightarrow> 'w \<Rightarrow> (error + 'h) \<times> 'w"
  Get :: "'h \<Rightarrow> 'w \<Rightarrow> (error + CartState) \<times> 'w"
  SignalWorkflow :: "string \<Rightarrow> string \<Rightarrow> string \<Rightarrow> 'w \<Rightarrow> error option \<times> 'w"

text \<open>
  The two constants of package \<open>shoppingcart\<close> that \<open>main.go\<close> reads. Their
  values are not in \<open>main.go\<close>, so they are parameters.
\<close>

record Package =
  TaskQueueName :: string
  CartUpdateName :: string

text \<open>
  The package-level variables of lines 15 to 28 that the handlers read. No
  statement of \<open>main.go\<close> assigns to \<open>sessionId\<close> after its initialisation, and
  \<open>workflowClient\<close> is assigned once in \<open>main\<close>; the handlers below take the
  variables as an argument and return no new value for them.
\<close>

record ('w, 'h) Globals =
  workflowClient :: "('w, 'h) Client"
  sessionId :: string
  shoppingcart :: Package

text \<open>
  \<open>log.Fatalln\<close> writes its arguments to the log and exits the process with
  status 1. A function of \<open>main.go\<close> either ends that way or returns.
\<close>

datatype logarg = Str string | Err error

datatype 'a outcome = Fatalln "logarg list" | Returned 'a

section \<open>The functions of main.go\<close>

text \<open>Line 153: \<open>newSession\<close>, over the string \<open>uuid.New()\<close> yields.\<close>

definition newSession :: "string \<Rightarrow> string" where
  "newSession uuid = ''session-'' @ uuid"

text \<open>Lines 117 to 131: the options \<open>updateWithStartCart\<close> builds.\<close>

definition updateWithStartOptions ::
  "('w, 'h) Globals \<Rightarrow> string \<Rightarrow> string \<Rightarrow> UpdateWithStartWorkflowOptions" where
  "updateWithStartOptions g actionType itemID =
     \<lparr>StartWorkflowOperation =
        \<lparr>Options =
           \<lparr>ID = sessionId g,
            TaskQueue = TaskQueueName (shoppingcart g),
            WorkflowIDConflictPolicy = WORKFLOW_ID_CONFLICT_POLICY_USE_EXISTING\<rparr>,
         WorkflowFunc = CartWorkflow\<rparr>,
      UpdateOptions =
        \<lparr>UpdateName = CartUpdateName (shoppingcart g),
         WaitForStage = WorkflowUpdateStageCompleted,
         Args = [actionType, itemID]\<rparr>\<rparr>"

text \<open>
  Lines 106 to 151: \<open>updateWithStartCart\<close>. Either client call that returns an
  error ends the process; otherwise the decoded cart state is returned. The
  \<open>log.Println\<close> of line 141 writes to the log only and is left out.
\<close>

definition updateWithStartCart ::
  "('w, 'h) Globals \<Rightarrow> string \<Rightarrow> string \<Rightarrow> 'w \<Rightarrow> CartState outcome \<times> 'w" where
  "updateWithStartCart g actionType itemID w =
     (case UpdateWithStartWorkflow (workflowClient g)
             (updateWithStartOptions g actionType itemID) w of
        (Inl err, w1) \<Rightarrow>
          (Fatalln [Str ''Error issuing update-with-start:'', Err err], w1)
      | (Inr updateHandle, w1) \<Rightarrow>
          (case Get (workflowClient g) updateHandle w1 of
             (Inl err, w2) \<Rightarrow>
               (Fatalln [Str ''Error obtaining update result:'', Err err], w2)
           | (Inr cartState, w2) \<Rightarrow> (Returned cartState, w2)))"

text \<open>
  What the client of a request is answered: the page showing a cart, nothing,
  or the answer the request multiplexer gives by itself without calling a
  handler. The HTML around the cart (lines 49 to 66 and 76 to 81) and the price
  table \<open>itemCosts\<close> it prints do not depend on the cart and are left out.
\<close>

datatype response = CartPage CartState | NoBody | MuxAnswer

text \<open>Lines 48 to 82: \<open>listHandler\<close>; it ignores the request.\<close>

definition listHandler :: "('w, 'h) Globals \<Rightarrow> 'w \<Rightarrow> response outcome \<times> 'w" where
  "listHandler g w =
     (case updateWithStartCart g ''list'' [] w of
        (Fatalln m, w1) \<Rightarrow> (Fatalln m, w1)
      | (Returned cartState, w1) \<Rightarrow> (Returned (CartPage cartState), w1))"

text \<open>
  A request: its URL path and its query parameters in order.
  \<open>r.URL.Query().Get(key)\<close> is the first value of the key, or the empty string.
\<close>

record Request =
  path :: string
  query :: "(string \<times> string) list"

definition Query_Get :: "Request \<Rightarrow> string \<Rightarrow> string" where
  "Query_Get r key = (case map_of (query r) key of None \<Rightarrow> [] | Some v \<Rightarrow> v)"

text \<open>Lines 86 to 97: the \<open>switch\<close> statement of \<open>actionHandler\<close>.\<close>

definition actionHandler_switch ::
  "('w, 'h) Globals \<Rightarrow> string \<Rightarrow> Request \<Rightarrow> 'w \<Rightarrow> unit outcome \<times> 'w" where
  "actionHandler_switch g actionType r w =
     (if actionType = ''checkout'' then
        (case SignalWorkflow (workflowClient g) (sessionId g) [] ''checkout'' w of
           (Some err, w1) \<Rightarrow> (Fatalln [Str ''Error signaling checkout:'', Err err], w1)
         | (None, w1) \<Rightarrow> (Returned (), w1))
      else if actionType = ''add'' \<or> actionType = ''remove'' \<or> actionType = ''list'' then
        (case updateWithStartCart g actionType (Query_Get r ''itemID'') w of
           (Fatalln m, w1) \<Rightarrow> (Fatalln m, w1)
         | (Returned cartState, w1) \<Rightarrow> (Returned (), w1))
      else (Fatalln [Str ''Invalid action type:'', Str actionType], w))"

text \<open>Lines 84 to 104: \<open>actionHandler\<close>.\<close>

definition actionHandler :: "('w, 'h) Globals \<Rightarrow> Request \<Rightarrow> 'w \<Rightarrow> response outcome \<times> 'w" where
  "actionHandler g r w =
     (case actionHandler_switch g (Query_Get r ''type'') r w of
        (Fatalln m, w1) \<Rightarrow> (Fatalln m, w1)
      | (Returned u, w1) \<Rightarrow>
          if Query_Get r ''type'' \<noteq> ''list'' then listHandler g w1
          else (Returned NoBody, w1))"

text \<open>
  Lines 39 and 40 register the two handlers with the default request
  multiplexer of \<open>net/http\<close>. Before it looks for a handler the multiplexer
  cleans the path of the request with its function \<open>cleanPath\<close>: an empty path
  becomes \<open>/\<close>, a path that does not start with a slash gets one, empty and
  \<open>.\<close> elements are dropped, a \<open>..\<close> element takes the element before it
  away (at the root it is dropped), and a trailing slash is kept.
\<close>

fun split_slash :: "string \<Rightarrow> string list" where
  "split_slash [] = [[]]"
| "split_slash (c # cs) =
     (if c = CHR ''/'' then [] # split_slash cs
      else (case split_slash cs of [] \<Rightarrow> [[c]] | e # es \<Rightarrow> (c # e) # es))"

fun clean_elements :: "string list \<Rightarrow> string list \<Rightarrow> string list" where
  "clean_elements out [] = rev out"
| "clean_elements out (e # es) =
     (if e = [] \<or> e = ''.'' then clean_elements out es
      else if e = ''..'' then clean_elements (case out of [] \<Rightarrow> [] | x # xs \<Rightarrow> xs) es
      else clean_elements (e # out) es)"

text \<open>\<open>path.Clean\<close> on a path that starts with a slash.\<close>

definition Clean_rooted :: "string \<Rightarrow> string" where
  "Clean_rooted p =
     (case clean_elements [] (split_slash p) of
        [] \<Rightarrow> ''/''
      | e # es \<Rightarrow> concat (map (\<lambda>x. CHR ''/'' # x) (e # es)))"

definition cleanPath :: "string \<Rightarrow> string" where
  "cleanPath p =
     (if p = [] then ''/''
      else
        (let p1 = (if hd p \<noteq> CHR ''/'' then CHR ''/'' # p else p);
             np = Clean_rooted p1
         in if last p1 = CHR ''/'' \<and> np \<noteq> ''/'' then np @ ''/'' else np))"

text \<open>
  The two routes. A request whose path is not the cleaned path is answered by
  the multiplexer with a redirect to the cleaned path, and no handler of
  \<open>main.go\<close> is called. Otherwise the pattern \<open>/action\<close> matches that path only,
  and the pattern \<open>/\<close> matches every other path. (The multiplexer leaves the
  path of a \<open>CONNECT\<close> request as it is; the requests of this development
  are those of every other method.)
\<close>

definition route :: "('w, 'h) Globals \<Rightarrow> Request \<Rightarrow> 'w \<Rightarrow> response outcome \<times> 'w" where
  "route g r w =
     (if cleanPath (path r) \<noteq> path r then (Returned MuxAnswer, w)
      else if path r = ''/action'' then actionHandler g r w
      else listHandler g w)"

text \<open>
  The life of the process: requests are served one after the other until a
  handler exits the process. The result is the responses written, the
  arguments of the fatal log call if there was one, and the world left behind.
  Go's server runs each handler in a goroutine of its own; the runs considered
  here are those in which the handlers do not overlap.
\<close>

fun serve ::
  "('w, 'h) Globals \<Rightarrow> Request list \<Rightarrow> 'w \<Rightarrow> response list \<times> logarg list option \<times> 'w" where
  "serve g [] w = ([], None, w)"
| "serve g (r # rs) w =
     (case route g r w of
        (Fatalln m, w1) \<Rightarrow> ([], Some m, w1)
      | (Returned p, w1) \<Rightarrow>
          (case serve g rs w1 of (ps, ex, w2) \<Rightarrow> (p # ps, ex, w2)))"

text \<open>
  Lines 27 and 30 to 46: program start. \<open>sessionId\<close> is initialised from one
  call of \<open>newSession\<close>, \<open>workflowClient\<close> from \<open>client.Dial\<close> (line 36 panics
  when dialling fails: the result is \<open>None\<close>, no request is served), and then
  the server runs.
\<close>

definition globals :: "('w, 'h) Client \<Rightarrow> Package \<Rightarrow> string \<Rightarrow> ('w, 'h) Globals" where
  "globals c pkg uuid = \<lparr>workflowClient = c, sessionId = newSession uuid, shoppingcart = pkg\<rparr>"

definition run_main ::
  "(error + ('w, 'h) Client) \<Rightarrow> Package \<Rightarrow> string \<Rightarrow> Request list \<Rightarrow> 'w
     \<Rightarrow> (response list \<times> logarg list option \<times> 'w) option" where
  "run_main dial pkg uuid rs w =
     (case dial of
        Inl err \<Rightarrow> None
      | Inr c \<Rightarrow> Some (serve (globals c pkg uuid) rs w))"

section \<open>A record of the client calls\<close>

text \<open>
  To state which calls the handlers make, a client is wrapped so that every
  call is appended to a list kept beside the world.
\<close>

datatype call =
    UpdateWithStartCall UpdateWithStartWorkflowOptions
  | GetCall
  | SignalCall string string string

definition recording :: "('w, 'h) Client \<Rightarrow> ('w \<times> call list, 'h) Client" where
  "recording c =
     \<lparr>UpdateWithStartWorkflow = (\<lambda>opts (w, l).
        case UpdateWithStartWorkflow c opts w of
          (res, w1) \<Rightarrow> (res, (w1, l @ [UpdateWithStartCall opts]))),
      Get = (\<lambda>h (w, l). case Get c h w of (res, w1) \<Rightarrow> (res, (w1, l @ [GetCall]))),
      SignalWorkflow = (\<lambda>workflowID runID signalName (w, l).
        case SignalWorkflow c workflowID runID signalName w of
          (res, w1) \<Rightarrow> (res, (w1, l @ [SignalCall workflowID runID signalName])))\<rparr>"

text \<open>
  The session a call addresses: the workflow identifier of the start operation
  or of the signal. \<open>Get\<close> is made on the handle an update call returned.
\<close>

fun addresses :: "string \<Rightarrow> call \<Rightarrow> bool" where
  "addresses sid (UpdateWithStartCall opts) = (ID (Options (StartWorkflowOperation opts)) = sid)"
| "addresses sid GetCall = True"
| "addresses sid (SignalCall workflowID runID signalName) = (workflowID = sid)"

text \<open>
  \<open>extends sid l0 l\<close>: the record \<open>l\<close> continues \<open>l0\<close> with calls that all address
  the session \<open>sid\<close>.
\<close>

definition extends :: "string \<Rightarrow> call list \<Rightarrow> call list \<Rightarrow> bool" where
  "extends sid l0 l = (\<exists>l1. l = l0 @ l1 \<and> list_all (addresses sid) l1)"

section \<open>The engine as a client\<close>

text \<open>
  Modelled from the spec: the update handle of the engine carries the identity
  of the actor it was made for and the actor's answer.
\<close>

record UpdateHandle =
  WorkflowID :: string
  RunID :: nat
  Outcome :: "error + CartState"

text \<open>
  Modelled from the spec: the update arguments \<open>[actionType, itemID]\<close> name one
  of the three synchronous commands of section 4.1.
\<close>

definition parse_command :: "string list \<Rightarrow> command option" where
  "parse_command args =
     (case args of
        [actionType, itemID] \<Rightarrow>
          if actionType = ''add'' then Some (CmdAdd itemID)
          else if actionType = ''remove'' then Some (CmdRemove itemID)
          else if actionType = ''list'' then Some CmdList
          else None
      | _ \<Rightarrow> None)"

text \<open>
  Modelled from the spec: update-with-start is steps 1, 2 and 4 of the
  Dispatcher algorithm of section 4.3 on the engine's side: create-or-attach,
  then the command is applied after everything submitted before it, and the
  answer (snapshot or rejection) is in the handle. A request that names no
  command, or asks for another conflict policy than create-or-attach, is a
  \<open>DispatchFailure\<close> and changes nothing.
\<close>

definition engine_UpdateWithStartWorkflow ::
  "UpdateWithStartWorkflowOptions \<Rightarrow> Engine \<Rightarrow> (error + UpdateHandle) \<times> Engine" where
  "engine_UpdateWithStartWorkflow opts e =
     (if WorkflowIDConflictPolicy (Options (StartWorkflowOperation opts))
           \<noteq> WORKFLOW_ID_CONFLICT_POLICY_USE_EXISTING
      then (Inl DispatchFailure, e)
      else
        (case parse_command (Args (UpdateOptions opts)) of
           None \<Rightarrow> (Inl DispatchFailure, e)
         | Some c \<Rightarrow>
             (case create_or_attach e (ID (Options (StartWorkflowOperation opts))) of
                (a, e1) \<Rightarrow>
                  (case apply_command (drain a) c of
                     (res, a1) \<Rightarrow>
                       (Inr \<lparr>WorkflowID = ID (Options (StartWorkflowOperation opts)),
                             RunID = run a1, Outcome = res\<rparr>,
                        e1\<lparr>directory := (directory e1)
                              (ID (Options (StartWorkflowOperation opts)) \<mapsto> a1)\<rparr>)))))"

definition engine_Get :: "UpdateHandle \<Rightarrow> Engine \<Rightarrow> (error + CartState) \<times> Engine" where
  "engine_Get h e = (Outcome h, e)"

text \<open>
  Modelled from the spec: a signal is step 2 and step 3 of the Dispatcher
  algorithm on the engine's side. The call carries no start operation, so the
  engine can only locate an actor: an identifier with no actor is a
  \<open>DispatchFailure\<close> (section 7: the infrastructure could not locate an actor),
  an actor that has reached \<open>CheckedOut\<close> is \<open>SessionClosed\<close>, and otherwise
  \<open>checkout\<close> is appended to the actor's queue and acknowledged without being
  applied. The specification defines no other asynchronous command.
\<close>

definition engine_SignalWorkflow ::
  "string \<Rightarrow> string \<Rightarrow> string \<Rightarrow> Engine \<Rightarrow> error option \<times> Engine" where
  "engine_SignalWorkflow workflowID runID signalName e =
     (case directory e workflowID of
        None \<Rightarrow> (Some DispatchFailure, e)
      | Some a \<Rightarrow>
          if lifecycle a = CheckedOut then (Some SessionClosed, e)
          else if signalName = ''checkout'' then
            (None, e\<lparr>directory := (directory e)
                       (workflowID \<mapsto> a\<lparr>queue := queue a @ [CmdCheckout]\<rparr>)\<rparr>)
          else (Some DispatchFailure, e))"

definition cart_engine :: "(Engine, UpdateHandle) Client" where
  "cart_engine =
     \<lparr>UpdateWithStartWorkflow = engine_UpdateWithStartWorkflow,
      Get = engine_Get,
      SignalWorkflow = engine_SignalWorkflow\<rparr>"

text \<open>
  A client whose infrastructure is unavailable: every operation fails with
  \<open>DispatchFailure\<close> and leaves the world alone.
\<close>

definition unavailable :: "('w, 'h) Client" where
  "unavailable =
     \<lparr>UpdateWithStartWorkflow = (\<lambda>opts w. (Inl DispatchFailure, w)),
      Get = (\<lambda>h w. (Inl DispatchFailure, w)),
      SignalWorkflow = (\<lambda>workflowID runID signalName w. (Some DispatchFailure, w))\<rparr>"

text \<open>The invariant of section 3, for every actor the engine hosts.\<close>

definition positive_engine :: "Engine \<Rightarrow> bool" where
  "positive_engine e = (\<forall>a \<in> ran (directory e). positive_items (cart a))"

text \<open>
  The engine hosts at most one actor, registered under \<open>sid\<close>, and has never
  constructed another.
\<close>

definition one_actor :: "string \<Rightarrow> Engine \<Rightarrow> bool" where
  "one_actor sid e =
     ((\<forall>k. k \<noteq> sid \<longrightarrow> directory e k = None)
      \<and> created e = (if directory e sid = None then 0 else 1))"

section \<open>Properties of the cart actor\<close>

lemma ran_upd_subset: "ran (m(k \<mapsto> v)) \<subseteq> insert v (ran m)"
  by (auto simp: ran_def)

lemma ran_del_subset: "ran (m(k := None)) \<subseteq> ran m"
  by (auto simp: ran_def)

lemma positive_items_empty: "positive_items empty_cart"
  by (simp add: positive_items_def empty_cart_def)

lemma positive_items_add:
  assumes "positive_items s"
  shows "positive_items (cart_add s x)"
proof -
  have q: "0 < (case Items s x of None \<Rightarrow> 1 | Some q \<Rightarrow> q + 1)"
    using assms by (auto simp: positive_items_def ran_def split: option.splits)
  show ?thesis
    using assms q ran_upd_subset [of "Items s" x]
    by (auto simp: positive_items_def cart_add_def)
qed

lemma positive_items_remove:
  assumes "positive_items s"
  shows "positive_items (cart_remove s x)"
proof (cases "Items s x")
  case None
  then show ?thesis using assms by (simp add: cart_remove_def)
next
  case (Some q)
  have "0 < q" using assms Some by (auto simp: positive_items_def ran_def)
  then show ?thesis
    using assms Some ran_upd_subset [of "Items s" x "q - 1"] ran_del_subset [of "Items s" x]
    by (auto simp: positive_items_def cart_remove_def)
qed

lemma apply_command_positive:
  assumes "positive_items (cart a)" and "apply_command a c = (res, a')"
  shows "positive_items (cart a') \<and> (\<forall>s. res = Inr s \<longrightarrow> positive_items s)"
  using assms
  by (cases "lifecycle a"; cases c)
     (auto simp: apply_command_def positive_items_add positive_items_remove)

lemma apply_commands_positive:
  assumes "positive_items (cart a)" and "apply_commands a cs = (rs, a')"
  shows "positive_items (cart a') \<and> (\<forall>s. Inr s \<in> set rs \<longrightarrow> positive_items s)"
  using assms
proof (induction cs arbitrary: a rs a')
  case Nil
  then show ?case by simp
next
  case (Cons c cs)
  obtain res a1 where step: "apply_command a c = (res, a1)"
    by (cases "apply_command a c")
  obtain rs1 a2 where rest: "apply_commands a1 cs = (rs1, a2)"
    by (cases "apply_commands a1 cs")
  from Cons.prems(2) step rest have eq: "rs = res # rs1" "a' = a2"
    by simp_all
  from apply_command_positive [OF Cons.prems(1) step]
  have p1: "positive_items (cart a1)" and r1: "\<forall>s. res = Inr s \<longrightarrow> positive_items s"
    by simp_all
  from Cons.IH [OF p1 rest] r1 eq show ?case by auto
qed

text \<open>
  Claim C6. For every cart state and every item absent from its items mapping,
  \<open>remove\<close> is a no-op: the command succeeds (the actor answers with a snapshot,
  not an error), no entry is created, and the snapshot after equals the
  snapshot before.
\<close>

theorem remove_absent_noop:
  assumes "Items (cart a) x = None" and "lifecycle a = Active"
  shows "apply_command a (CmdRemove x) = (Inr (cart a), a)
       \<and> cart_remove (cart a) x = cart a
       \<and> Items (cart_remove (cart a) x) x = None"
  using assms by (simp add: apply_command_def cart_remove_def)

theorem remove_absent_noop_witness:
  "apply_command (new_actor 0) (CmdRemove ''car'') = (Inr empty_cart, new_actor 0)
   \<and> cart_remove empty_cart ''car'' = empty_cart
   \<and> Items (cart_remove empty_cart ''car'') ''car'' = None"
  using remove_absent_noop [of "new_actor 0" "''car''"]
  by (simp add: apply_command_def new_actor_def empty_cart_def)

text \<open>
  Claim C7. For every cart state and item, \<open>add\<close> immediately followed by
  \<open>remove\<close> of the same item leaves the item's quantity as it was, also when
  the pair goes through the actor of a session; \<open>add\<close> sets the entry to the old
  quantity plus 1 (1 if the key was absent), and \<open>remove\<close> takes 1 off a present
  entry, deleting the key exactly when the result is 0.
\<close>

theorem add_remove_round_trip:
  "quantity (cart_remove (cart_add s x) x) x = quantity s x
   \<and> Items (cart_add s x) x = Some (quantity s x + 1)
   \<and> quantity (cart_remove s x) x = (case Items s x of None \<Rightarrow> 0 | Some q \<Rightarrow> q - 1)
   \<and> (Items (cart_remove s x) x = None \<longleftrightarrow> Items s x = None \<or> Items s x = Some 1)
   \<and> (lifecycle a = Active \<longrightarrow>
        quantity (cart (snd (apply_commands a [CmdAdd x, CmdRemove x]))) x
          = quantity (cart a) x)"
  by (auto simp: apply_command_def quantity_def cart_add_def cart_remove_def
      split: option.splits)

theorem add_remove_round_trip_witness:
  "quantity (cart_remove (cart_add empty_cart ''apple'') ''apple'') ''apple'' = 0
   \<and> Items (cart_add empty_cart ''apple'') ''apple'' = Some 1
   \<and> Items (cart_remove empty_cart ''apple'') ''apple'' = None
   \<and> lifecycle (new_actor 0) = Active
   \<and> quantity (cart (snd (apply_commands (new_actor 0)
          [CmdAdd ''apple'', CmdRemove ''apple'']))) ''apple'' = 0"
  using add_remove_round_trip [of empty_cart "''apple''" "new_actor 0"]
  by (simp add: apply_command_def new_actor_def empty_cart_def quantity_def)

text \<open>
  Under the invariant the pair restores the whole snapshot, not only the
  quantity of the item.
\<close>

lemma round_trip_snapshot:
  assumes "positive_items s"
  shows "cart_remove (cart_add s x) x = s"
proof (cases "Items s x")
  case None
  then have "(Items s)(x := None) = Items s" by auto
  with None show ?thesis by (simp add: cart_add_def cart_remove_def)
next
  case (Some q)
  then have "0 < q" using assms by (auto simp: positive_items_def ran_def)
  moreover have "(Items s)(x \<mapsto> q) = Items s" using Some by auto
  ultimately show ?thesis using Some by (simp add: cart_add_def cart_remove_def)
qed

section \<open>Properties of the actor's queue\<close>

lemma apply_command_run: "run (snd (apply_command a c)) = run a"
  by (cases "lifecycle a"; cases c) (simp_all add: apply_command_def)

lemma apply_command_queue: "queue (snd (apply_command a c)) = queue a"
  by (cases "lifecycle a"; cases c) (simp_all add: apply_command_def)

lemma apply_command_closed:
  "lifecycle a = CheckedOut \<Longrightarrow> apply_command a c = (Inl SessionClosed, a)"
  by (simp add: apply_command_def)

lemma apply_command_snapshot:
  "apply_command a c = (Inr s, a1) \<Longrightarrow> cart a1 = s"
  by (cases "lifecycle a"; cases c) (auto simp: apply_command_def)

lemma apply_commands_run: "run (snd (apply_commands a cs)) = run a"
proof (induction cs arbitrary: a)
  case Nil
  show ?case by simp
next
  case (Cons c cs)
  from Cons.IH [of "snd (apply_command a c)"] apply_command_run [of a c]
  show ?case by (simp add: split_beta)
qed

lemma apply_commands_queue: "queue (snd (apply_commands a cs)) = queue a"
proof (induction cs arbitrary: a)
  case Nil
  show ?case by simp
next
  case (Cons c cs)
  from Cons.IH [of "snd (apply_command a c)"] apply_command_queue [of a c]
  show ?case by (simp add: split_beta)
qed

lemma apply_commands_closed:
  "lifecycle a = CheckedOut \<Longrightarrow> snd (apply_commands a cs) = a"
  by (induction cs) (simp_all add: split_beta apply_command_closed)

lemma drain_run: "run (drain a) = run a"
  by (simp add: drain_def apply_commands_run)

lemma drain_queue: "queue (drain a) = []"
  by (simp add: drain_def apply_commands_queue)

lemma drain_closed: "lifecycle a = CheckedOut \<Longrightarrow> drain a = a\<lparr>queue := []\<rparr>"
  by (simp add: drain_def apply_commands_closed)

lemma drain_new_actor: "drain (new_actor r) = new_actor r"
  by (simp add: drain_def new_actor_def)

lemma drain_positive:
  assumes "positive_items (cart a)"
  shows "positive_items (cart (drain a))"
proof -
  obtain rs a' where r: "apply_commands (a\<lparr>queue := []\<rparr>) (queue a) = (rs, a')"
    by (cases "apply_commands (a\<lparr>queue := []\<rparr>) (queue a)")
  from assms have "positive_items (cart (a\<lparr>queue := []\<rparr>))" by simp
  from apply_commands_positive [OF this r] r show ?thesis
    by (simp add: drain_def)
qed

section \<open>The front end over the engine\<close>

lemma parse_command_actions:
  "actionType = ''add'' \<or> actionType = ''remove'' \<or> actionType = ''list''
     \<longleftrightarrow> parse_command [actionType, itemID] \<noteq> None"
  by (simp add: parse_command_def)

text \<open>
  What \<open>updateWithStartCart\<close> does when the client is the engine: the actor is
  created or attached, the pending commands and then this one are applied, and
  the actor's answer decides between a returned snapshot and the fatal exit of
  line 148.
\<close>

lemma engine_update:
  assumes "workflowClient g = cart_engine"
    and "parse_command [actionType, itemID] = Some c"
    and "create_or_attach e (sessionId g) = (a, e1)"
    and "apply_command (drain a) c = (res, a1)"
  shows "updateWithStartCart g actionType itemID e =
           ((case res of
               Inl err \<Rightarrow> Fatalln [Str ''Error obtaining update result:'', Err err]
             | Inr s \<Rightarrow> Returned s),
            e1\<lparr>directory := (directory e1)(sessionId g \<mapsto> a1)\<rparr>)"
  using assms
  by (cases res)
     (simp_all add: updateWithStartCart_def updateWithStartOptions_def cart_engine_def
        engine_UpdateWithStartWorkflow_def engine_Get_def)

section \<open>The calls of the front end\<close>

lemma addresses_options:
  "addresses (sessionId g) (UpdateWithStartCall (updateWithStartOptions g actionType itemID))"
  by (simp add: updateWithStartOptions_def)

lemma extends_refl: "extends sid l l"
  by (simp add: extends_def)

lemma extends_trans: "extends sid l0 l1 \<Longrightarrow> extends sid l1 l2 \<Longrightarrow> extends sid l0 l2"
  by (auto simp: extends_def)

lemma extends_snoc: "addresses sid k \<Longrightarrow> extends sid l (l @ [k])"
  by (simp add: extends_def)

lemma updateWithStartCart_calls:
  assumes "workflowClient g = recording c"
    and "updateWithStartCart g actionType itemID (w, l0) = (out, (w', l))"
  shows "extends (sessionId g) l0 l"
proof -
  obtain res w1 where u: "UpdateWithStartWorkflow c (updateWithStartOptions g actionType itemID) w = (res, w1)"
    by (cases "UpdateWithStartWorkflow c (updateWithStartOptions g actionType itemID) w")
  let ?l1 = "l0 @ [UpdateWithStartCall (updateWithStartOptions g actionType itemID)]"
  have e1: "extends (sessionId g) l0 ?l1"
    by (rule extends_snoc) (rule addresses_options)
  show ?thesis
  proof (cases res)
    case (Inl err)
    with assms u have "l = ?l1"
      by (simp add: updateWithStartCart_def recording_def)
    with e1 show ?thesis by simp
  next
    case (Inr h)
    obtain res2 w2 where g2: "Get c h w1 = (res2, w2)"
      by (cases "Get c h w1")
    with assms u Inr have "l = ?l1 @ [GetCall]"
      by (cases res2) (simp_all add: updateWithStartCart_def recording_def)
    moreover have "extends (sessionId g) ?l1 (?l1 @ [GetCall])"
      by (rule extends_snoc) simp
    ultimately show ?thesis using e1 extends_trans by metis
  qed
qed

lemma listHandler_calls:
  assumes "workflowClient g = recording c"
    and "listHandler g (w, l0) = (out, (w', l))"
  shows "extends (sessionId g) l0 l"
proof -
  obtain o1 w1 l1 where u: "updateWithStartCart g ''list'' [] (w, l0) = (o1, (w1, l1))"
    by (cases "updateWithStartCart g ''list'' [] (w, l0)") auto
  with assms(2) have "l = l1"
    by (cases o1) (simp_all add: listHandler_def)
  with updateWithStartCart_calls [OF assms(1) u] show ?thesis by simp
qed

lemma actionHandler_switch_calls:
  assumes "workflowClient g = recording c"
    and "actionHandler_switch g actionType r (w, l0) = (out, (w', l))"
  shows "extends (sessionId g) l0 l"
proof -
  consider (checkout) "actionType = ''checkout''"
    | (update) "actionType \<noteq> ''checkout''" "actionType = ''add'' \<or> actionType = ''remove'' \<or> actionType = ''list''"
    | (other) "actionType \<noteq> ''checkout''" "\<not> (actionType = ''add'' \<or> actionType = ''remove'' \<or> actionType = ''list'')"
    by blast
  then show ?thesis
  proof cases
    case checkout
    obtain res w1 where s: "SignalWorkflow c (sessionId g) [] ''checkout'' w = (res, w1)"
      by (cases "SignalWorkflow c (sessionId g) [] ''checkout'' w")
    with assms checkout have "l = l0 @ [SignalCall (sessionId g) [] ''checkout'']"
      by (cases res) (simp_all add: actionHandler_switch_def recording_def)
    then show ?thesis by (simp add: extends_snoc)
  next
    case update
    obtain o1 w1 l1 where u:
      "updateWithStartCart g actionType (Query_Get r ''itemID'') (w, l0) = (o1, (w1, l1))"
      by (cases "updateWithStartCart g actionType (Query_Get r ''itemID'') (w, l0)") auto
    with assms(2) update have "l = l1"
      by (cases o1) (simp_all add: actionHandler_switch_def)
    with updateWithStartCart_calls [OF assms(1) u] show ?thesis by simp
  next
    case other
    with assms(2) have "l = l0" by (simp add: actionHandler_switch_def)
    then show ?thesis by (simp add: extends_refl)
  qed
qed

lemma actionHandler_calls:
  assumes "workflowClient g = recording c"
    and "actionHandler g r (w, l0) = (out, (w', l))"
  shows "extends (sessionId g) l0 l"
proof -
  obtain o1 w1 l1 where s:
    "actionHandler_switch g (Query_Get r ''type'') r (w, l0) = (o1, (w1, l1))"
    by (cases "actionHandler_switch g (Query_Get r ''type'') r (w, l0)") auto
  have e1: "extends (sessionId g) l0 l1"
    by (rule actionHandler_switch_calls [OF assms(1) s])
  show ?thesis
  proof (cases o1)
    case (Fatalln m)
    with assms(2) s have "l = l1" by (simp add: actionHandler_def)
    with e1 show ?thesis by simp
  next
    case (Returned u)
    show ?thesis
    proof (cases "Query_Get r ''type'' = ''list''")
      case True
      with assms(2) s Returned have "l = l1" by (simp add: actionHandler_def)
      with e1 show ?thesis by simp
    next
      case False
      with assms(2) s Returned have "listHandler g (w1, l1) = (out, (w', l))"
        by (simp add: actionHandler_def)
      from listHandler_calls [OF assms(1) this] e1 show ?thesis
        using extends_trans by metis
    qed
  qed
qed

lemma cleanPath_action: "cleanPath ''/action'' = ''/action''"
  by (simp add: cleanPath_def Clean_rooted_def)

lemma cleanPath_root: "cleanPath ''/'' = ''/''"
  by (simp add: cleanPath_def Clean_rooted_def)

lemma route_unclean:
  "route g \<lparr>path = ''//action'', query = q\<rparr> w = (Returned MuxAnswer, w)"
  "route g \<lparr>path = ''/x/../action'', query = q\<rparr> w = (Returned MuxAnswer, w)"
  by (simp_all add: route_def cleanPath_def Clean_rooted_def)

lemma route_calls:
  assumes "workflowClient g = recording c"
    and "route g r (w, l0) = (out, (w', l))"
  shows "extends (sessionId g) l0 l"
  using assms actionHandler_calls [of g c r w l0 out w' l] listHandler_calls [of g c w l0 out w' l]
  by (auto simp add: route_def extends_refl split: if_splits)

lemma serve_calls:
  assumes "workflowClient g = recording c"
    and "serve g rs (w, l0) = (ps, ex, (w', l))"
  shows "extends (sessionId g) l0 l"
  using assms(2)
proof (induction rs arbitrary: w l0 ps ex w' l)
  case Nil
  then show ?case by (simp add: extends_refl)
next
  case (Cons r rs)
  obtain o1 w1 l1 where rt: "route g r (w, l0) = (o1, (w1, l1))"
    by (cases "route g r (w, l0)") auto
  have e1: "extends (sessionId g) l0 l1"
    by (rule route_calls [OF assms(1) rt])
  show ?case
  proof (cases o1)
    case (Fatalln m)
    with Cons.prems rt have "l = l1" by simp
    with e1 show ?thesis by simp
  next
    case (Returned p)
    obtain ps2 ex2 w2 l2 where sv: "serve g rs (w1, l1) = (ps2, ex2, (w2, l2))"
      by (cases "serve g rs (w1, l1)") auto
    with Cons.prems rt Returned have "l = l2" by simp
    with Cons.IH [OF sv] e1 show ?thesis using extends_trans by metis
  qed
qed

text \<open>The record does not change what the front end does.\<close>

lemma recording_update:
  assumes "workflowClient g' = recording (workflowClient g)"
    and "sessionId g' = sessionId g" and "shoppingcart g' = shoppingcart g"
  shows "fst (updateWithStartCart g' t i (w, l)) = fst (updateWithStartCart g t i w)
       \<and> fst (snd (updateWithStartCart g' t i (w, l))) = snd (updateWithStartCart g t i w)"
  using assms
  by (simp add: updateWithStartCart_def updateWithStartOptions_def recording_def
      split: prod.splits sum.splits)

lemma recording_updateWithStartCart:
  assumes "workflowClient g' = recording (workflowClient g)"
    and "sessionId g' = sessionId g" and "shoppingcart g' = shoppingcart g"
    and "updateWithStartCart g' t i (w, l) = (out, (w', l'))"
  shows "updateWithStartCart g t i w = (out, w')"
  using recording_update [OF assms(1-3), of t i w l] assms(4)
  by (simp add: prod_eq_iff)

lemma recording_listHandler:
  assumes "workflowClient g' = recording (workflowClient g)"
    and "sessionId g' = sessionId g" and "shoppingcart g' = shoppingcart g"
    and "listHandler g' (w, l) = (out, (w', l'))"
  shows "listHandler g w = (out, w')"
proof -
  obtain o1 w1 l1 where u: "updateWithStartCart g' ''list'' [] (w, l) = (o1, (w1, l1))"
    by (cases "updateWithStartCart g' ''list'' [] (w, l)") auto
  from recording_updateWithStartCart [OF assms(1-3) u] u assms(4) show ?thesis
    by (cases o1) (simp_all add: listHandler_def)
qed

lemma recording_switch:
  assumes "workflowClient g' = recording (workflowClient g)"
    and "sessionId g' = sessionId g" and "shoppingcart g' = shoppingcart g"
    and "actionHandler_switch g' t r (w, l) = (out, (w', l'))"
  shows "actionHandler_switch g t r w = (out, w')"
proof (cases "t = ''checkout''")
  case True
  with assms(1,2,4) show ?thesis
    by (auto simp add: actionHandler_switch_def recording_def split: prod.splits option.splits)
next
  case False
  show ?thesis
  proof (cases "t = ''add'' \<or> t = ''remove'' \<or> t = ''list''")
    case True
    obtain o1 w1 l1 where u:
      "updateWithStartCart g' t (Query_Get r ''itemID'') (w, l) = (o1, (w1, l1))"
      by (cases "updateWithStartCart g' t (Query_Get r ''itemID'') (w, l)") auto
    from recording_updateWithStartCart [OF assms(1-3) u] u assms(4) False True show ?thesis
      by (cases o1) (simp_all add: actionHandler_switch_def)
  next
    case other: False
    with assms(4) False show ?thesis by (simp add: actionHandler_switch_def)
  qed
qed

lemma recording_actionHandler:
  assumes "workflowClient g' = recording (workflowClient g)"
    and "sessionId g' = sessionId g" and "shoppingcart g' = shoppingcart g"
    and "actionHandler g' r (w, l) = (out, (w', l'))"
  shows "actionHandler g r w = (out, w')"
proof -
  obtain o1 w1 l1 where s:
    "actionHandler_switch g' (Query_Get r ''type'') r (w, l) = (o1, (w1, l1))"
    by (cases "actionHandler_switch g' (Query_Get r ''type'') r (w, l)") auto
  note s0 = recording_switch [OF assms(1-3) s]
  show ?thesis
  proof (cases o1)
    case (Fatalln m)
    with s s0 assms(4) show ?thesis by (simp add: actionHandler_def)
  next
    case (Returned u)
    show ?thesis
    proof (cases "Query_Get r ''type'' = ''list''")
      case True
      with s s0 assms(4) Returned show ?thesis by (simp add: actionHandler_def)
    next
      case False
      with s assms(4) Returned have "listHandler g' (w1, l1) = (out, (w', l'))"
        by (simp add: actionHandler_def)
      from recording_listHandler [OF assms(1-3) this] s0 Returned False show ?thesis
        by (simp add: actionHandler_def)
    qed
  qed
qed

lemma recording_serve:
  assumes "workflowClient g' = recording (workflowClient g)"
    and "sessionId g' = sessionId g" and "shoppingcart g' = shoppingcart g"
    and "serve g' rs (w, l) = (ps, ex, (w', l'))"
  shows "serve g rs w = (ps, ex, w')"
  using assms(4)
proof (induction rs arbitrary: w l ps ex w' l')
  case Nil
  then show ?case by simp
next
  case (Cons r rs)
  obtain o1 w1 l1 where rt: "route g' r (w, l) = (o1, (w1, l1))"
    by (cases "route g' r (w, l)") auto
  have rt0: "route g r w = (o1, w1)"
    using rt recording_actionHandler [OF assms(1-3), of r w l o1 w1 l1]
      recording_listHandler [OF assms(1-3), of w l o1 w1 l1]
    by (auto simp add: route_def split: if_splits)
  show ?case
  proof (cases o1)
    case (Fatalln m)
    with Cons.prems rt rt0 show ?thesis by simp
  next
    case (Returned p)
    obtain ps2 ex2 w2 l2 where sv: "serve g' rs (w1, l1) = (ps2, ex2, (w2, l2))"
      by (cases "serve g' rs (w1, l1)") auto
    from Cons.IH [OF sv] Cons.prems rt rt0 Returned sv show ?thesis by simp
  qed
qed

lemmas front_end_defs =
  run_main_def globals_def newSession_def route_def cleanPath_action cleanPath_root
  actionHandler_def actionHandler_switch_def
  listHandler_def Query_Get_def updateWithStartCart_def updateWithStartOptions_def

lemmas engine_defs =
  cart_engine_def engine_UpdateWithStartWorkflow_def engine_Get_def engine_SignalWorkflow_def
  parse_command_def create_or_attach_def empty_engine_def drain_def new_actor_def
  apply_command_def cart_add_def cart_remove_def empty_cart_def

lemma two_requests_run:
  "run_main (Inr (recording cart_engine)) \<lparr>TaskQueueName = ''q'', CartUpdateName = ''u''\<rparr> ''42''
     [\<lparr>path = ''/action'', query = [(''type'', ''add''), (''itemID'', ''apple'')]\<rparr>,
      \<lparr>path = ''/action'', query = [(''type'', ''checkout'')]\<rparr>]
     (empty_engine, [])
   = Some ([CartPage \<lparr>Items = [''apple'' \<mapsto> 1]\<rparr>],
           Some [Str ''Error obtaining update result:'', Err SessionClosed],
           (\<lparr>directory = [''session-42'' \<mapsto>
                \<lparr>cart = \<lparr>Items = [''apple'' \<mapsto> 1]\<rparr>, lifecycle = CheckedOut,
                 queue = [], run = 0\<rparr>],
              created = 1\<rparr>,
            [UpdateWithStartCall (updateWithStartOptions
               (globals (recording cart_engine)
                  \<lparr>TaskQueueName = ''q'', CartUpdateName = ''u''\<rparr> ''42'') ''add'' ''apple''),
             GetCall,
             UpdateWithStartCall (updateWithStartOptions
               (globals (recording cart_engine)
                  \<lparr>TaskQueueName = ''q'', CartUpdateName = ''u''\<rparr> ''42'') ''list'' []),
             GetCall,
             SignalCall ''session-42'' [] ''checkout'',
             UpdateWithStartCall (updateWithStartOptions
               (globals (recording cart_engine)
                  \<lparr>TaskQueueName = ''q'', CartUpdateName = ''u''\<rparr> ''42'') ''list'' []),
             GetCall]))"
  by (simp add: front_end_defs engine_defs recording_def)

text \<open>
  Claim C10. A request to \<open>/action\<close> whose \<open>type\<close> parameter is none of
  \<open>checkout\<close>, \<open>add\<close>, \<open>remove\<close>, \<open>list\<close> (a missing parameter reads as the empty
  string) ends the whole process through \<open>log.Fatalln\<close>: the handler makes no
  client call, writes no response, and no later request is served.
\<close>

theorem invalid_action_is_fatal:
  assumes "Query_Get r ''type'' \<notin> {''checkout'', ''add'', ''remove'', ''list''}"
  shows "actionHandler g r w
           = (Fatalln [Str ''Invalid action type:'', Str (Query_Get r ''type'')], w)
       \<and> (path r = ''/action'' \<longrightarrow>
            serve g (r # rs) w
              = ([], Some [Str ''Invalid action type:'', Str (Query_Get r ''type'')], w))"
  using assms
  by (simp add: actionHandler_def actionHandler_switch_def route_def cleanPath_action)

theorem invalid_action_is_fatal_witness:
  "Query_Get \<lparr>path = ''/action'', query = [(''type'', ''delete'')]\<rparr> ''type''
     \<notin> {''checkout'', ''add'', ''remove'', ''list''}
   \<and> actionHandler (globals cart_engine \<lparr>TaskQueueName = ''q'', CartUpdateName = ''u''\<rparr> ''42'')
        \<lparr>path = ''/action'', query = [(''type'', ''delete'')]\<rparr> empty_engine
        = (Fatalln [Str ''Invalid action type:'', Str ''delete''], empty_engine)
   \<and> serve (globals cart_engine \<lparr>TaskQueueName = ''q'', CartUpdateName = ''u''\<rparr> ''42'')
        [\<lparr>path = ''/action'', query = [(''type'', ''delete'')]\<rparr>, \<lparr>path = ''/'', query = []\<rparr>]
        empty_engine
        = ([], Some [Str ''Invalid action type:'', Str ''delete''], empty_engine)"
  using invalid_action_is_fatal
    [of "\<lparr>path = ''/action'', query = [(''type'', ''delete'')]\<rparr>"
        "globals cart_engine \<lparr>TaskQueueName = ''q'', CartUpdateName = ''u''\<rparr> ''42''"
        empty_engine "[\<lparr>path = ''/'', query = []\<rparr>]"]
  by (simp add: Query_Get_def)

section \<open>Failures\<close>

lemma serve_fatal_at:
  assumes "serve g rs0 w0 = (ps, None, w)" and "route g r w = (Fatalln m, w3)"
  shows "serve g (rs0 @ r # rs) w0 = (ps, Some m, w3)"
  using assms(1)
proof (induction rs0 arbitrary: w0 ps)
  case Nil
  with assms(2) show ?case by simp
next
  case (Cons r0 rs0)
  obtain o1 w1 where rt: "route g r0 w0 = (o1, w1)"
    by (cases "route g r0 w0")
  show ?case
  proof (cases o1)
    case (Fatalln m0)
    with Cons.prems rt show ?thesis by simp
  next
    case (Returned p)
    obtain ps1 ex1 w2 where sv: "serve g rs0 w1 = (ps1, ex1, w2)"
      by (cases "serve g rs0 w1") auto
    with Cons.prems rt Returned have "ex1 = None" "w2 = w" "ps = p # ps1"
      by simp_all
    with Cons.IH [of w1 ps1] sv rt Returned show ?thesis by simp
  qed
qed

text \<open>
  Claim C1, as amended. Whenever an add, remove or list command cannot be
  completed, that is, whenever update-with-start or the update handle's \<open>Get\<close>
  returns an error, \<open>updateWithStartCart\<close> returns neither the error nor a
  snapshot to its caller: it passes the error to \<open>log.Fatalln\<close>, which ends the
  process. This holds for every dispatch a handler makes, at any point in the
  life of the process: the command of an \<open>/action\<close> request, the list that
  \<open>actionHandler\<close> issues after a checkout, add or remove, and the list of
  \<open>listHandler\<close>. The request gets no response, the responses written before
  it stay as they are, and no later request is served. No error is swallowed:
  a snapshot is returned only when both calls succeeded.
\<close>

theorem failure_ends_process:
  "(UpdateWithStartWorkflow (workflowClient g) (updateWithStartOptions g actionType itemID) w
      = (Inl err, w1) \<longrightarrow>
    updateWithStartCart g actionType itemID w
      = (Fatalln [Str ''Error issuing update-with-start:'', Err err], w1))
   \<and> (UpdateWithStartWorkflow (workflowClient g) (updateWithStartOptions g actionType itemID) w
      = (Inr h, w1) \<and> Get (workflowClient g) h w1 = (Inl err, w2) \<longrightarrow>
    updateWithStartCart g actionType itemID w
      = (Fatalln [Str ''Error obtaining update result:'', Err err], w2))
   \<and> (serve g rs0 w0 = (ps, None, w)
      \<and> path r = ''/action'' \<and> Query_Get r ''type'' \<in> {''add'', ''remove'', ''list''}
      \<and> updateWithStartCart g (Query_Get r ''type'') (Query_Get r ''itemID'') w = (Fatalln m, w3)
      \<longrightarrow> serve g (rs0 @ r # rs) w0 = (ps, Some m, w3))
   \<and> (serve g rs0 w0 = (ps, None, w)
      \<and> path r = ''/action'' \<and> Query_Get r ''type'' \<noteq> ''list''
      \<and> actionHandler_switch g (Query_Get r ''type'') r w = (Returned u, w6)
      \<and> updateWithStartCart g ''list'' [] w6 = (Fatalln m, w3)
      \<longrightarrow> serve g (rs0 @ r # rs) w0 = (ps, Some m, w3))
   \<and> (serve g rs0 w0 = (ps, None, w)
      \<and> cleanPath (path r) = path r \<and> path r \<noteq> ''/action''
      \<and> updateWithStartCart g ''list'' [] w = (Fatalln m, w3)
      \<longrightarrow> serve g (rs0 @ r # rs) w0 = (ps, Some m, w3))
   \<and> (updateWithStartCart g actionType itemID w = (Returned s, w4) \<longrightarrow>
      (\<exists>h' w5. UpdateWithStartWorkflow (workflowClient g)
                   (updateWithStartOptions g actionType itemID) w = (Inr h', w5)
                \<and> Get (workflowClient g) h' w5 = (Inr s, w4)))"
proof -
  have fatal: "(UpdateWithStartWorkflow (workflowClient g) (updateWithStartOptions g actionType itemID) w
      = (Inl err, w1) \<longrightarrow>
    updateWithStartCart g actionType itemID w
      = (Fatalln [Str ''Error issuing update-with-start:'', Err err], w1))
   \<and> (UpdateWithStartWorkflow (workflowClient g) (updateWithStartOptions g actionType itemID) w
      = (Inr h, w1) \<and> Get (workflowClient g) h w1 = (Inl err, w2) \<longrightarrow>
    updateWithStartCart g actionType itemID w
      = (Fatalln [Str ''Error obtaining update result:'', Err err], w2))"
    by (simp add: updateWithStartCart_def)
  have first: "route g r w = (Fatalln m, w3)"
    if "path r = ''/action''" "Query_Get r ''type'' \<in> {''add'', ''remove'', ''list''}"
      "updateWithStartCart g (Query_Get r ''type'') (Query_Get r ''itemID'') w = (Fatalln m, w3)"
    using that
    by (auto simp add: route_def cleanPath_action actionHandler_def actionHandler_switch_def)
  have follow: "route g r w = (Fatalln m, w3)"
    if "path r = ''/action''" "Query_Get r ''type'' \<noteq> ''list''"
      "actionHandler_switch g (Query_Get r ''type'') r w = (Returned u, w6)"
      "updateWithStartCart g ''list'' [] w6 = (Fatalln m, w3)"
    using that
    by (simp add: route_def cleanPath_action actionHandler_def listHandler_def)
  have lst: "route g r w = (Fatalln m, w3)"
    if "cleanPath (path r) = path r" "path r \<noteq> ''/action''"
      "updateWithStartCart g ''list'' [] w = (Fatalln m, w3)"
    using that by (simp add: route_def listHandler_def)
  have kept: "updateWithStartCart g actionType itemID w = (Returned s, w4) \<longrightarrow>
      (\<exists>h' w5. UpdateWithStartWorkflow (workflowClient g)
                   (updateWithStartOptions g actionType itemID) w = (Inr h', w5)
                \<and> Get (workflowClient g) h' w5 = (Inr s, w4))"
    by (auto simp add: updateWithStartCart_def split: prod.splits sum.splits)
  from fatal kept first follow lst serve_fatal_at [of g rs0 w0 ps w r m w3 rs]
  show ?thesis by blast
qed

theorem failure_ends_process_witness:
  "updateWithStartCart
     (globals (unavailable :: (unit, unit) Client)
        \<lparr>TaskQueueName = ''q'', CartUpdateName = ''u''\<rparr> ''42'') ''add'' ''apple'' ()
     = (Fatalln [Str ''Error issuing update-with-start:'', Err DispatchFailure], ())
   \<and> updateWithStartCart
     (globals cart_engine \<lparr>TaskQueueName = ''q'', CartUpdateName = ''u''\<rparr> ''42'')
     ''add'' ''banana''
     \<lparr>directory = [''session-42'' \<mapsto>
        \<lparr>cart = \<lparr>Items = [''apple'' \<mapsto> 1]\<rparr>, lifecycle = CheckedOut, queue = [], run = 0\<rparr>],
      created = 1\<rparr>
     = (Fatalln [Str ''Error obtaining update result:'', Err SessionClosed],
        \<lparr>directory = [''session-42'' \<mapsto>
          \<lparr>cart = \<lparr>Items = [''apple'' \<mapsto> 1]\<rparr>, lifecycle = CheckedOut, queue = [], run = 0\<rparr>],
        created = 1\<rparr>)
   \<and> serve
     (globals (unavailable :: (unit, unit) Client)
        \<lparr>TaskQueueName = ''q'', CartUpdateName = ''u''\<rparr> ''42'')
     [\<lparr>path = ''/action'', query = [(''type'', ''add''), (''itemID'', ''apple'')]\<rparr>,
      \<lparr>path = ''/'', query = []\<rparr>] ()
     = ([], Some [Str ''Error issuing update-with-start:'', Err DispatchFailure], ())
   \<and> serve
     (globals cart_engine \<lparr>TaskQueueName = ''q'', CartUpdateName = ''u''\<rparr> ''42'')
     [\<lparr>path = ''/action'', query = [(''type'', ''add''), (''itemID'', ''apple'')]\<rparr>,
      \<lparr>path = ''/action'', query = [(''type'', ''checkout'')]\<rparr>,
      \<lparr>path = ''/'', query = []\<rparr>] empty_engine
     = ([CartPage \<lparr>Items = [''apple'' \<mapsto> 1]\<rparr>],
        Some [Str ''Error obtaining update result:'', Err SessionClosed],
        \<lparr>directory = [''session-42'' \<mapsto>
          \<lparr>cart = \<lparr>Items = [''apple'' \<mapsto> 1]\<rparr>, lifecycle = CheckedOut, queue = [], run = 0\<rparr>],
        created = 1\<rparr>)
   \<and> serve
     (globals (unavailable :: (unit, unit) Client)
        \<lparr>TaskQueueName = ''q'', CartUpdateName = ''u''\<rparr> ''42'')
     [\<lparr>path = ''/'', query = []\<rparr>, \<lparr>path = ''/'', query = []\<rparr>] ()
     = ([], Some [Str ''Error issuing update-with-start:'', Err DispatchFailure], ())"
proof -
  let ?pkg = "\<lparr>TaskQueueName = ''q'', CartUpdateName = ''u''\<rparr>"
  let ?gu = "globals (unavailable :: (unit, unit) Client) ?pkg ''42''"
  let ?ge = "globals cart_engine ?pkg ''42''"
  let ?a = "\<lparr>cart = \<lparr>Items = [''apple'' \<mapsto> 1]\<rparr>, lifecycle = CheckedOut, queue = [], run = 0\<rparr>"
  let ?e = "\<lparr>directory = [''session-42'' \<mapsto> ?a], created = 1\<rparr>"
  let ?e1 = "\<lparr>directory = [''session-42'' \<mapsto> ?a\<lparr>lifecycle := Active\<rparr>], created = 1\<rparr>"
  let ?e2 = "\<lparr>directory = [''session-42'' \<mapsto> ?a\<lparr>lifecycle := Active, queue := [CmdCheckout]\<rparr>],
             created = 1\<rparr>"
  let ?add = "\<lparr>path = ''/action'', query = [(''type'', ''add''), (''itemID'', ''apple'')]\<rparr>"
  let ?out = "\<lparr>path = ''/action'', query = [(''type'', ''checkout'')]\<rparr>"
  let ?root = "\<lparr>path = ''/'', query = []\<rparr>"
  let ?m1 = "[Str ''Error issuing update-with-start:'', Err DispatchFailure]"
  let ?m2 = "[Str ''Error obtaining update result:'', Err SessionClosed]"
  have u: "UpdateWithStartWorkflow (workflowClient ?gu) (updateWithStartOptions ?gu t i) ()
             = (Inl DispatchFailure, ())" for t i
    by (simp add: globals_def unavailable_def)
  have h: "UpdateWithStartWorkflow (workflowClient ?ge) (updateWithStartOptions ?ge ''add'' ''banana'') ?e
             = (Inr \<lparr>WorkflowID = ''session-42'', RunID = 0, Outcome = Inl SessionClosed\<rparr>, ?e)"
    by (simp add: front_end_defs engine_defs)
  have gt: "Get (workflowClient ?ge)
              \<lparr>WorkflowID = ''session-42'', RunID = 0, Outcome = Inl SessionClosed\<rparr> ?e
              = (Inl SessionClosed, ?e)"
    by (simp add: globals_def cart_engine_def engine_Get_def)
  have c1: "updateWithStartCart ?gu t i () = (Fatalln ?m1, ())" for t i
    by (rule failure_ends_process [THEN conjunct1, rule_format, OF u])
  have c2: "updateWithStartCart ?ge ''add'' ''banana'' ?e = (Fatalln ?m2, ?e)"
    by (rule failure_ends_process [THEN conjunct2, THEN conjunct1, rule_format,
          OF conjI [OF h gt]])
  have nil: "serve ?gu [] () = ([], None, ())"
    by simp
  have pa: "path ?add = ''/action''" "path ?out = ''/action''"
    "cleanPath (path ?root) = path ?root" "path ?root \<noteq> ''/action''"
    by (simp_all add: cleanPath_root)
  have mem: "Query_Get ?add ''type'' \<in> {''add'', ''remove'', ''list''}"
    and nl: "Query_Get ?out ''type'' \<noteq> ''list''"
    by (simp_all add: Query_Get_def)
  have upd: "updateWithStartCart ?gu (Query_Get ?add ''type'') (Query_Get ?add ''itemID'') ()
               = (Fatalln ?m1, ())"
    by (rule c1)
  have c3: "serve ?gu ([] @ ?add # [?root]) () = ([], Some ?m1, ())"
    by (rule failure_ends_process [THEN conjunct2, THEN conjunct2, THEN conjunct1, rule_format,
          OF conjI [OF nil conjI [OF pa(1) conjI [OF mem upd]]]])
  have pre: "serve ?ge [?add] empty_engine = ([CartPage \<lparr>Items = [''apple'' \<mapsto> 1]\<rparr>], None, ?e1)"
    by (simp add: front_end_defs engine_defs)
  have sw: "actionHandler_switch ?ge (Query_Get ?out ''type'') ?out ?e1 = (Returned (), ?e2)"
    by (simp add: front_end_defs engine_defs)
  have ls: "updateWithStartCart ?ge ''list'' [] ?e2 = (Fatalln ?m2, ?e)"
    by (simp add: front_end_defs engine_defs)
  have c4: "serve ?ge ([?add] @ ?out # [?root]) empty_engine
              = ([CartPage \<lparr>Items = [''apple'' \<mapsto> 1]\<rparr>], Some ?m2, ?e)"
    by (rule failure_ends_process [THEN conjunct2, THEN conjunct2, THEN conjunct2,
          THEN conjunct1, rule_format,
          OF conjI [OF pre conjI [OF pa(2) conjI [OF nl conjI [OF sw ls]]]]])
  have c5: "serve ?gu ([] @ ?root # [?root]) () = ([], Some ?m1, ())"
    by (rule failure_ends_process [THEN conjunct2, THEN conjunct2, THEN conjunct2,
          THEN conjunct2, THEN conjunct1, rule_format,
          OF conjI [OF nil conjI [OF pa(3) conjI [OF pa(4) c1]]]])
  from c1 [of "''add''" "''apple''"] c2 c3 c4 c5 show ?thesis
    by simp
qed

text \<open>
  Claim C1 as stated fails: with a client that cannot reach its service, an add
  request is not answered with an error; the process has ended, and the
  request after it is never served.
\<close>

theorem error_not_returned_counterexample:
  "serve
     (globals (unavailable :: (unit, unit) Client)
        \<lparr>TaskQueueName = ''q'', CartUpdateName = ''u''\<rparr> ''42'')
     [\<lparr>path = ''/action'', query = [(''type'', ''add''), (''itemID'', ''apple'')]\<rparr>,
      \<lparr>path = ''/'', query = []\<rparr>] ()
   = ([], Some [Str ''Error issuing update-with-start:'', Err DispatchFailure], ())"
  by (simp add: front_end_defs unavailable_def)

section \<open>Synchronous commands\<close>

lemma engine_snapshot:
  assumes "workflowClient g = cart_engine"
    and "updateWithStartCart g actionType itemID e = (Returned s, e')"
  shows "\<exists>c a1. parse_command [actionType, itemID] = Some c
           \<and> apply_command (drain (fst (create_or_attach e (sessionId g)))) c = (Inr s, a1)
           \<and> directory e' (sessionId g) = Some a1 \<and> cart a1 = s \<and> queue a1 = []"
proof (cases "parse_command [actionType, itemID]")
  case None
  with assms show ?thesis
    by (simp add: updateWithStartCart_def updateWithStartOptions_def cart_engine_def
        engine_UpdateWithStartWorkflow_def)
next
  case (Some c)
  obtain a e1 where ca: "create_or_attach e (sessionId g) = (a, e1)"
    by (cases "create_or_attach e (sessionId g)")
  obtain res a1 where ap: "apply_command (drain a) c = (res, a1)"
    by (cases "apply_command (drain a) c")
  from engine_update [OF assms(1) Some ca ap] assms(2)
  have res: "res = Inr s" and e': "e' = e1\<lparr>directory := (directory e1)(sessionId g \<mapsto> a1)\<rparr>"
    by (cases res; simp)+
  have "queue a1 = []"
    using apply_command_queue [of "drain a" c] ap by (simp add: drain_queue)
  moreover have "cart a1 = s"
    using ap res apply_command_snapshot by simp
  ultimately show ?thesis using Some ca ap res e' by simp
qed

lemma engine_accepts:
  assumes "workflowClient g = cart_engine"
    and "parse_command [actionType, itemID] = Some c"
    and "lifecycle (drain (fst (create_or_attach e (sessionId g)))) = Active"
  shows "\<exists>s e'. updateWithStartCart g actionType itemID e = (Returned s, e')"
proof -
  obtain a e1 where ca: "create_or_attach e (sessionId g) = (a, e1)"
    by (cases "create_or_attach e (sessionId g)")
  obtain res a1 where ap: "apply_command (drain a) c = (res, a1)"
    by (cases "apply_command (drain a) c")
  from assms(3) ca have "lifecycle (drain a) = Active" by simp
  with ap obtain s where "res = Inr s"
    by (cases c) (auto simp: apply_command_def)
  with engine_update [OF assms(1,2) ca ap] show ?thesis by simp
qed

text \<open>
  Claim C2. For add, remove and list, \<open>updateWithStartCart\<close> asks the client to
  wait until the update has completed, then reads the outcome from the update
  handle, and returns exactly when both calls succeeded, with the snapshot the
  handle delivered. Over the engine that snapshot is the cart state of the
  session's actor after the command was applied behind everything submitted
  before it, nothing is left pending, and every command the actor accepts
  does yield a snapshot.
\<close>

theorem update_returns_snapshot:
  "WaitForStage (UpdateOptions (updateWithStartOptions g actionType itemID))
     = WorkflowUpdateStageCompleted
   \<and> (updateWithStartCart g actionType itemID w = (Returned s, w') \<longleftrightarrow>
        (\<exists>h w1. UpdateWithStartWorkflow (workflowClient g)
                   (updateWithStartOptions g actionType itemID) w = (Inr h, w1)
               \<and> Get (workflowClient g) h w1 = (Inr s, w')))
   \<and> (workflowClient ge = cart_engine
        \<and> updateWithStartCart ge actionType itemID e = (Returned s, e') \<longrightarrow>
        (\<exists>c a1. parse_command [actionType, itemID] = Some c
           \<and> apply_command (drain (fst (create_or_attach e (sessionId ge)))) c = (Inr s, a1)
           \<and> directory e' (sessionId ge) = Some a1 \<and> cart a1 = s \<and> queue a1 = []))
   \<and> (workflowClient ge = cart_engine \<and> parse_command [actionType, itemID] = Some c
        \<and> lifecycle (drain (fst (create_or_attach e (sessionId ge)))) = Active \<longrightarrow>
        (\<exists>s e'. updateWithStartCart ge actionType itemID e = (Returned s, e')))"
proof -
  have 1: "WaitForStage (UpdateOptions (updateWithStartOptions g actionType itemID))
     = WorkflowUpdateStageCompleted"
    by (simp add: updateWithStartOptions_def)
  have 2: "updateWithStartCart g actionType itemID w = (Returned s, w') \<longleftrightarrow>
        (\<exists>h w1. UpdateWithStartWorkflow (workflowClient g)
                   (updateWithStartOptions g actionType itemID) w = (Inr h, w1)
               \<and> Get (workflowClient g) h w1 = (Inr s, w'))"
    by (auto simp add: updateWithStartCart_def split: prod.splits sum.splits)
  from 1 2 engine_snapshot [of ge actionType itemID e s e']
    engine_accepts [of ge actionType itemID c e]
  show ?thesis by blast
qed

theorem update_returns_snapshot_witness:
  "updateWithStartCart
     (globals cart_engine \<lparr>TaskQueueName = ''q'', CartUpdateName = ''u''\<rparr> ''42'')
     ''add'' ''apple'' empty_engine
   = (Returned \<lparr>Items = [''apple'' \<mapsto> 1]\<rparr>,
      \<lparr>directory = [''session-42'' \<mapsto>
         \<lparr>cart = \<lparr>Items = [''apple'' \<mapsto> 1]\<rparr>, lifecycle = Active, queue = [], run = 0\<rparr>],
       created = 1\<rparr>)
   \<and> parse_command [''add'', ''apple''] = Some (CmdAdd ''apple'')
   \<and> lifecycle (drain (fst (create_or_attach empty_engine ''session-42''))) = Active
   \<and> apply_command (new_actor 0) (CmdAdd ''apple'')
       = (Inr \<lparr>Items = [''apple'' \<mapsto> 1]\<rparr>,
          \<lparr>cart = \<lparr>Items = [''apple'' \<mapsto> 1]\<rparr>, lifecycle = Active, queue = [], run = 0\<rparr>)"
proof -
  let ?g = "globals cart_engine \<lparr>TaskQueueName = ''q'', CartUpdateName = ''u''\<rparr> ''42''"
  let ?a1 = "\<lparr>cart = \<lparr>Items = [''apple'' \<mapsto> 1]\<rparr>, lifecycle = Active, queue = [], run = 0\<rparr>"
  let ?e1 = "\<lparr>directory = [''session-42'' \<mapsto> ?a1], created = 1\<rparr>"
  let ?h = "\<lparr>WorkflowID = ''session-42'', RunID = 0, Outcome = Inr \<lparr>Items = [''apple'' \<mapsto> 1]\<rparr>\<rparr>"
  have u: "UpdateWithStartWorkflow (workflowClient ?g)
             (updateWithStartOptions ?g ''add'' ''apple'') empty_engine = (Inr ?h, ?e1)"
    by (simp add: front_end_defs engine_defs)
  have gt: "Get (workflowClient ?g) ?h ?e1 = (Inr \<lparr>Items = [''apple'' \<mapsto> 1]\<rparr>, ?e1)"
    by (simp add: globals_def cart_engine_def engine_Get_def)
  have r: "updateWithStartCart ?g ''add'' ''apple'' empty_engine
             = (Returned \<lparr>Items = [''apple'' \<mapsto> 1]\<rparr>, ?e1)"
    using update_returns_snapshot [of ?g "''add''" "''apple''" empty_engine
        "\<lparr>Items = [''apple'' \<mapsto> 1]\<rparr>" ?e1] u gt
    by blast
  have ap: "apply_command (new_actor 0) (CmdAdd ''apple'') = (Inr \<lparr>Items = [''apple'' \<mapsto> 1]\<rparr>, ?a1)"
    by (simp add: engine_defs)
  have pc: "parse_command [''add'', ''apple''] = Some (CmdAdd ''apple'')"
    by (simp add: parse_command_def)
  have lc: "lifecycle (drain (fst (create_or_attach empty_engine ''session-42''))) = Active"
    by (simp add: create_or_attach_def empty_engine_def drain_new_actor)
       (simp add: new_actor_def)
  from r ap pc lc show ?thesis by simp
qed

section \<open>Checkout\<close>

text \<open>
  Claim C3. A checkout is dispatched as one signal. As soon as the client
  acknowledges the signal the dispatch returns, in the world the signal call
  left behind: the signal is the only client call made (no update is issued, no
  handle is read, nothing is waited for), and what comes back has no cart state
  in it. Over the engine the command is then pending in the actor's queue and
  has not been applied: the actor is still \<open>Active\<close> with its cart unchanged.
\<close>

theorem checkout_fire_and_forget:
  "(SignalWorkflow (workflowClient g) (sessionId g) [] ''checkout'' w = (None, w1) \<longrightarrow>
      actionHandler_switch g ''checkout'' r w = (Returned (), w1))
   \<and> (workflowClient gr = recording c \<longrightarrow>
      snd (snd (actionHandler_switch gr ''checkout'' r (w0, l)))
        = l @ [SignalCall (sessionId gr) [] ''checkout''])
   \<and> (workflowClient ge = cart_engine \<and> directory e (sessionId ge) = Some a
        \<and> lifecycle a = Active \<longrightarrow>
      actionHandler_switch ge ''checkout'' r e
        = (Returned (),
           e\<lparr>directory := (directory e)
                (sessionId ge \<mapsto> a\<lparr>queue := queue a @ [CmdCheckout]\<rparr>)\<rparr>))"
  by (auto simp add: actionHandler_switch_def recording_def cart_engine_def
      engine_SignalWorkflow_def split: prod.splits option.splits)

theorem checkout_fire_and_forget_witness:
  "SignalWorkflow cart_engine ''session-42'' [] ''checkout''
     \<lparr>directory = [''session-42'' \<mapsto>
        \<lparr>cart = \<lparr>Items = [''apple'' \<mapsto> 1]\<rparr>, lifecycle = Active, queue = [], run = 0\<rparr>],
      created = 1\<rparr>
   = (None,
      \<lparr>directory = [''session-42'' \<mapsto>
        \<lparr>cart = \<lparr>Items = [''apple'' \<mapsto> 1]\<rparr>, lifecycle = Active,
         queue = [CmdCheckout], run = 0\<rparr>],
      created = 1\<rparr>)
   \<and> actionHandler_switch
     (globals cart_engine \<lparr>TaskQueueName = ''q'', CartUpdateName = ''u''\<rparr> ''42'')
     ''checkout'' \<lparr>path = ''/action'', query = [(''type'', ''checkout'')]\<rparr>
     \<lparr>directory = [''session-42'' \<mapsto>
        \<lparr>cart = \<lparr>Items = [''apple'' \<mapsto> 1]\<rparr>, lifecycle = Active, queue = [], run = 0\<rparr>],
      created = 1\<rparr>
   = (Returned (),
      \<lparr>directory = [''session-42'' \<mapsto>
        \<lparr>cart = \<lparr>Items = [''apple'' \<mapsto> 1]\<rparr>, lifecycle = Active,
         queue = [CmdCheckout], run = 0\<rparr>],
      created = 1\<rparr>)
   \<and> snd (snd (actionHandler_switch
       (globals (recording cart_engine) \<lparr>TaskQueueName = ''q'', CartUpdateName = ''u''\<rparr> ''42'')
       ''checkout'' \<lparr>path = ''/action'', query = [(''type'', ''checkout'')]\<rparr>
       (\<lparr>directory = [''session-42'' \<mapsto>
          \<lparr>cart = \<lparr>Items = [''apple'' \<mapsto> 1]\<rparr>, lifecycle = Active, queue = [], run = 0\<rparr>],
        created = 1\<rparr>, [])))
     = [SignalCall ''session-42'' [] ''checkout'']"
proof -
  let ?pkg = "\<lparr>TaskQueueName = ''q'', CartUpdateName = ''u''\<rparr>"
  let ?g = "globals cart_engine ?pkg ''42''"
  let ?gr = "globals (recording cart_engine) ?pkg ''42''"
  let ?r = "\<lparr>path = ''/action'', query = [(''type'', ''checkout'')]\<rparr>"
  let ?a = "\<lparr>cart = \<lparr>Items = [''apple'' \<mapsto> 1]\<rparr>, lifecycle = Active, queue = [], run = 0\<rparr>"
  let ?e = "\<lparr>directory = [''session-42'' \<mapsto> ?a], created = 1\<rparr>"
  have g: "workflowClient ?g = cart_engine" "sessionId ?g = ''session-42''"
    "workflowClient ?gr = recording cart_engine" "sessionId ?gr = ''session-42''"
    by (simp_all add: globals_def newSession_def)
  have d: "directory ?e (sessionId ?g) = Some ?a" "lifecycle ?a = Active"
    by (simp_all add: g)
  let ?e1 = "\<lparr>directory = [''session-42'' \<mapsto> ?a\<lparr>queue := [CmdCheckout]\<rparr>], created = 1\<rparr>"
  have s: "SignalWorkflow (workflowClient ?g) (sessionId ?g) [] ''checkout'' ?e = (None, ?e1)"
    by (simp add: globals_def newSession_def cart_engine_def engine_SignalWorkflow_def)
  from checkout_fire_and_forget [of ?g ?e ?e1 ?r ?gr cart_engine ?e "[]" ?g ?e ?a] g d s
  show ?thesis by simp
qed

section \<open>Create or attach\<close>

lemma engine_checkout:
  assumes "workflowClient g = cart_engine"
  shows "actionHandler_switch g ''checkout'' r e =
     (case directory e (sessionId g) of
        None \<Rightarrow> (Fatalln [Str ''Error signaling checkout:'', Err DispatchFailure], e)
      | Some a \<Rightarrow>
          if lifecycle a = CheckedOut
          then (Fatalln [Str ''Error signaling checkout:'', Err SessionClosed], e)
          else (Returned (),
                e\<lparr>directory := (directory e)
                     (sessionId g \<mapsto> a\<lparr>queue := queue a @ [CmdCheckout]\<rparr>)\<rparr>))"
  using assms
  by (simp add: actionHandler_switch_def cart_engine_def engine_SignalWorkflow_def
      split: option.splits)

lemma engine_update_new:
  assumes "workflowClient g = cart_engine"
    and "parse_command [actionType, itemID] = Some c"
    and "directory e (sessionId g) = None"
  shows "snd (updateWithStartCart g actionType itemID e)
           = e\<lparr>directory := (directory e)
                  (sessionId g \<mapsto> snd (apply_command (new_actor (created e)) c)),
                created := created e + 1\<rparr>"
proof -
  let ?e1 = "e\<lparr>directory := (directory e)(sessionId g \<mapsto> new_actor (created e)),
               created := created e + 1\<rparr>"
  have ca: "create_or_attach e (sessionId g) = (new_actor (created e), ?e1)"
    using assms(3) by (simp add: create_or_attach_def)
  obtain res a1 where ap: "apply_command (drain (new_actor (created e))) c = (res, a1)"
    by (cases "apply_command (drain (new_actor (created e))) c")
  from engine_update [OF assms(1,2) ca ap] ap show ?thesis
    by (simp add: drain_new_actor)
qed

lemma engine_update_existing:
  assumes "workflowClient g = cart_engine"
    and "parse_command [actionType, itemID] = Some c"
    and "directory e (sessionId g) = Some a"
  shows "snd (updateWithStartCart g actionType itemID e)
           = e\<lparr>directory := (directory e)(sessionId g \<mapsto> snd (apply_command (drain a) c))\<rparr>"
proof -
  have ca: "create_or_attach e (sessionId g) = (a, e)"
    using assms(3) by (simp add: create_or_attach_def)
  obtain res a1 where ap: "apply_command (drain a) c = (res, a1)"
    by (cases "apply_command (drain a) c")
  from engine_update [OF assms(1,2) ca ap] ap show ?thesis by simp
qed

text \<open>
  Claim C4, as amended. For every session identifier, the first add, remove or
  list dispatched for it creates a new \<open>Active\<close> actor with empty cart state,
  registers it and applies the command to it; every later add, remove or list
  for the identifier attaches to the actor that is registered, whatever its
  lifecycle state, and creates no other. A checkout dispatch never creates an
  actor: it leaves the set of registered identifiers and the count of actors
  as they are, and an actor that exists keeps its identity, cart and lifecycle
  state.
\<close>

theorem create_or_attach_once:
  assumes "workflowClient g = cart_engine"
    and "parse_command [actionType, itemID] = Some c"
  shows "(directory e (sessionId g) = None \<longrightarrow>
            snd (updateWithStartCart g actionType itemID e)
              = e\<lparr>directory := (directory e)
                     (sessionId g \<mapsto> snd (apply_command (new_actor (created e)) c)),
                   created := created e + 1\<rparr>)
       \<and> (directory e (sessionId g) = Some a \<longrightarrow>
            snd (updateWithStartCart g actionType itemID e)
              = e\<lparr>directory := (directory e)
                     (sessionId g \<mapsto> snd (apply_command (drain a) c))\<rparr>
            \<and> run (snd (apply_command (drain a) c)) = run a)
       \<and> created (snd (actionHandler_switch g ''checkout'' r e)) = created e
       \<and> dom (directory (snd (actionHandler_switch g ''checkout'' r e))) = dom (directory e)
       \<and> (directory e (sessionId g) = Some a \<longrightarrow>
            (\<exists>a1. directory (snd (actionHandler_switch g ''checkout'' r e)) (sessionId g) = Some a1
                 \<and> run a1 = run a \<and> cart a1 = cart a \<and> lifecycle a1 = lifecycle a))"
proof -
  have r: "run (snd (apply_command (drain a) c)) = run a"
    by (simp add: apply_command_run drain_run)
  have co: "created (snd (actionHandler_switch g ''checkout'' r e)) = created e"
    by (simp add: engine_checkout [OF assms(1)] split: option.splits)
  have dm: "dom (directory (snd (actionHandler_switch g ''checkout'' r e))) = dom (directory e)"
    by (auto simp add: engine_checkout [OF assms(1)] split: option.splits if_splits)
  have at: "directory e (sessionId g) = Some a \<Longrightarrow>
      (\<exists>a1. directory (snd (actionHandler_switch g ''checkout'' r e)) (sessionId g) = Some a1
           \<and> run a1 = run a \<and> cart a1 = cart a \<and> lifecycle a1 = lifecycle a)"
    by (simp add: engine_checkout [OF assms(1)])
  from engine_update_new [OF assms] engine_update_existing [OF assms] r co dm at
  show ?thesis by blast
qed

theorem create_or_attach_once_witness:
  "snd (updateWithStartCart
     (globals cart_engine \<lparr>TaskQueueName = ''q'', CartUpdateName = ''u''\<rparr> ''42'')
     ''add'' ''apple'' empty_engine)
   = \<lparr>directory = [''session-42'' \<mapsto>
        \<lparr>cart = \<lparr>Items = [''apple'' \<mapsto> 1]\<rparr>, lifecycle = Active, queue = [], run = 0\<rparr>],
      created = 1\<rparr>
   \<and> snd (updateWithStartCart
     (globals cart_engine \<lparr>TaskQueueName = ''q'', CartUpdateName = ''u''\<rparr> ''42'')
     ''add'' ''apple''
     \<lparr>directory = [''session-42'' \<mapsto>
        \<lparr>cart = \<lparr>Items = [''apple'' \<mapsto> 1]\<rparr>, lifecycle = Active, queue = [], run = 0\<rparr>],
      created = 1\<rparr>)
   = \<lparr>directory = [''session-42'' \<mapsto>
        \<lparr>cart = \<lparr>Items = [''apple'' \<mapsto> 2]\<rparr>, lifecycle = Active, queue = [], run = 0\<rparr>],
      created = 1\<rparr>"
proof -
  let ?g = "globals cart_engine \<lparr>TaskQueueName = ''q'', CartUpdateName = ''u''\<rparr> ''42''"
  let ?a = "\<lparr>cart = \<lparr>Items = [''apple'' \<mapsto> 1]\<rparr>, lifecycle = Active, queue = [], run = 0\<rparr>"
  let ?e = "\<lparr>directory = [''session-42'' \<mapsto> ?a], created = 1\<rparr>"
  have g: "workflowClient ?g = cart_engine" "sessionId ?g = ''session-42''"
    by (simp_all add: globals_def newSession_def)
  have p: "parse_command [''add'', ''apple''] = Some (CmdAdd ''apple'')"
    by (simp add: parse_command_def)
  have n: "directory empty_engine (sessionId ?g) = None"
    by (simp add: empty_engine_def)
  have s: "directory ?e (sessionId ?g) = Some ?a"
    by (simp add: g)
  have 1: "snd (updateWithStartCart ?g ''add'' ''apple'' empty_engine) = ?e"
  proof -
    note create_or_attach_once [OF g(1) p, THEN conjunct1, rule_format, OF n]
    also have "empty_engine\<lparr>directory := (directory empty_engine)
          (sessionId ?g \<mapsto> snd (apply_command (new_actor (created empty_engine)) (CmdAdd ''apple''))),
        created := created empty_engine + 1\<rparr> = ?e"
      by (simp add: globals_def newSession_def engine_defs)
    finally show ?thesis .
  qed
  have 2: "snd (updateWithStartCart ?g ''add'' ''apple'' ?e)
             = \<lparr>directory = [''session-42'' \<mapsto> ?a\<lparr>cart := \<lparr>Items = [''apple'' \<mapsto> 2]\<rparr>\<rparr>], created = 1\<rparr>"
  proof -
    note create_or_attach_once [OF g(1) p, THEN conjunct2, THEN conjunct1, rule_format,
        OF s, THEN conjunct1]
    also have "?e\<lparr>directory := (directory ?e)
          (sessionId ?g \<mapsto> snd (apply_command (drain ?a) (CmdAdd ''apple'')))\<rparr>
        = \<lparr>directory = [''session-42'' \<mapsto> ?a\<lparr>cart := \<lparr>Items = [''apple'' \<mapsto> 2]\<rparr>\<rparr>], created = 1\<rparr>"
      by (simp add: globals_def newSession_def engine_defs)
    finally show ?thesis .
  qed
  from 1 2 show ?thesis by simp
qed

text \<open>
  Claim C4 as stated fails when the first command dispatched for an identifier
  is a checkout: the signal finds no actor, the process ends, and no actor has
  been created.
\<close>

theorem checkout_first_counterexample:
  "actionHandler
     (globals cart_engine \<lparr>TaskQueueName = ''q'', CartUpdateName = ''u''\<rparr> ''42'')
     \<lparr>path = ''/action'', query = [(''type'', ''checkout'')]\<rparr> empty_engine
   = (Fatalln [Str ''Error signaling checkout:'', Err DispatchFailure], empty_engine)
   \<and> directory empty_engine ''session-42'' = None"
  by (simp add: front_end_defs engine_defs)

section \<open>After checkout\<close>

text \<open>
  Claim C5. Once checkout has been applied for a session identifier (its actor
  is \<open>CheckedOut\<close>), every later command for the identifier is rejected with
  \<open>SessionClosed\<close>: an add, remove or list is answered with that error in its
  update handle, a checkout with that error from the signal. No state changes:
  the actor keeps its cart, its \<open>CheckedOut\<close> state and its identity, and no
  actor is created, so the identifier is not reused for a fresh \<open>Active\<close> actor
  with empty cart state. (In \<open>main.go\<close> the rejected dispatch then ends the
  process, see claim C1.)
\<close>

theorem closed_session_rejects:
  assumes "workflowClient g = cart_engine"
    and "directory e (sessionId g) = Some a" and "lifecycle a = CheckedOut"
  shows "(parse_command [actionType, itemID] \<noteq> None \<longrightarrow>
            UpdateWithStartWorkflow (workflowClient g) (updateWithStartOptions g actionType itemID) e
              = (Inr \<lparr>WorkflowID = sessionId g, RunID = run a, Outcome = Inl SessionClosed\<rparr>,
                 e\<lparr>directory := (directory e)(sessionId g \<mapsto> a\<lparr>queue := []\<rparr>)\<rparr>)
          \<and> updateWithStartCart g actionType itemID e
              = (Fatalln [Str ''Error obtaining update result:'', Err SessionClosed],
                 e\<lparr>directory := (directory e)(sessionId g \<mapsto> a\<lparr>queue := []\<rparr>)\<rparr>)
          \<and> (queue a = [] \<longrightarrow> snd (updateWithStartCart g actionType itemID e) = e))
       \<and> actionHandler_switch g ''checkout'' r e
            = (Fatalln [Str ''Error signaling checkout:'', Err SessionClosed], e)"
proof -
  have ca: "create_or_attach e (sessionId g) = (a, e)"
    using assms(2) by (simp add: create_or_attach_def)
  have ap: "\<And>c. apply_command (drain a) c = (Inl SessionClosed, a\<lparr>queue := []\<rparr>)"
    using assms(3) by (simp add: drain_closed apply_command_closed)
  have u: "\<And>c. parse_command [actionType, itemID] = Some c \<Longrightarrow>
      updateWithStartCart g actionType itemID e
        = (Fatalln [Str ''Error obtaining update result:'', Err SessionClosed],
           e\<lparr>directory := (directory e)(sessionId g \<mapsto> a\<lparr>queue := []\<rparr>)\<rparr>)"
    using engine_update [OF assms(1) _ ca ap] by simp
  have h: "\<And>c. parse_command [actionType, itemID] = Some c \<Longrightarrow>
      UpdateWithStartWorkflow (workflowClient g) (updateWithStartOptions g actionType itemID) e
        = (Inr \<lparr>WorkflowID = sessionId g, RunID = run a, Outcome = Inl SessionClosed\<rparr>,
           e\<lparr>directory := (directory e)(sessionId g \<mapsto> a\<lparr>queue := []\<rparr>)\<rparr>)"
    using assms(1) ca ap
    by (simp add: updateWithStartOptions_def cart_engine_def engine_UpdateWithStartWorkflow_def)
  have same: "queue a = [] \<Longrightarrow>
      e\<lparr>directory := (directory e)(sessionId g \<mapsto> a\<lparr>queue := []\<rparr>)\<rparr> = e"
  proof -
    assume "queue a = []"
    then have "a\<lparr>queue := []\<rparr> = a" by simp
    moreover have "(directory e)(sessionId g \<mapsto> a) = directory e"
      using assms(2) by auto
    ultimately show ?thesis by simp
  qed
  have s: "actionHandler_switch g ''checkout'' r e
             = (Fatalln [Str ''Error signaling checkout:'', Err SessionClosed], e)"
    using assms by (simp add: engine_checkout)
  from u h s same show ?thesis by auto
qed

theorem closed_session_rejects_witness:
  "updateWithStartCart
     (globals cart_engine \<lparr>TaskQueueName = ''q'', CartUpdateName = ''u''\<rparr> ''42'')
     ''add'' ''banana''
     \<lparr>directory = [''session-42'' \<mapsto>
        \<lparr>cart = \<lparr>Items = [''apple'' \<mapsto> 1]\<rparr>, lifecycle = CheckedOut, queue = [], run = 0\<rparr>],
      created = 1\<rparr>
   = (Fatalln [Str ''Error obtaining update result:'', Err SessionClosed],
      \<lparr>directory = [''session-42'' \<mapsto>
        \<lparr>cart = \<lparr>Items = [''apple'' \<mapsto> 1]\<rparr>, lifecycle = CheckedOut, queue = [], run = 0\<rparr>],
      created = 1\<rparr>)
   \<and> actionHandler_switch
     (globals cart_engine \<lparr>TaskQueueName = ''q'', CartUpdateName = ''u''\<rparr> ''42'')
     ''checkout'' \<lparr>path = ''/action'', query = [(''type'', ''checkout'')]\<rparr>
     \<lparr>directory = [''session-42'' \<mapsto>
        \<lparr>cart = \<lparr>Items = [''apple'' \<mapsto> 1]\<rparr>, lifecycle = CheckedOut, queue = [], run = 0\<rparr>],
      created = 1\<rparr>
   = (Fatalln [Str ''Error signaling checkout:'', Err SessionClosed],
      \<lparr>directory = [''session-42'' \<mapsto>
        \<lparr>cart = \<lparr>Items = [''apple'' \<mapsto> 1]\<rparr>, lifecycle = CheckedOut, queue = [], run = 0\<rparr>],
      created = 1\<rparr>)"
proof -
  let ?g = "globals cart_engine \<lparr>TaskQueueName = ''q'', CartUpdateName = ''u''\<rparr> ''42''"
  let ?a = "\<lparr>cart = \<lparr>Items = [''apple'' \<mapsto> 1]\<rparr>, lifecycle = CheckedOut, queue = [], run = 0\<rparr>"
  let ?e = "\<lparr>directory = [''session-42'' \<mapsto> ?a], created = 1\<rparr>"
  have g: "workflowClient ?g = cart_engine"
    by (simp add: globals_def)
  have s: "directory ?e (sessionId ?g) = Some ?a"
    by (simp add: globals_def newSession_def)
  have l: "lifecycle ?a = CheckedOut"
    by simp
  have p: "parse_command [''add'', ''banana''] \<noteq> None"
    by (simp add: parse_command_def)
  have same: "?e\<lparr>directory := (directory ?e)(sessionId ?g \<mapsto> ?a\<lparr>queue := []\<rparr>)\<rparr> = ?e"
    by (simp add: globals_def newSession_def)
  from closed_session_rejects [OF g s l, of "''add''" "''banana''"
      "\<lparr>path = ''/action'', query = [(''type'', ''checkout'')]\<rparr>"] p same
  show ?thesis by simp
qed

section \<open>The invariant of the cart\<close>

lemma positive_engine_empty: "positive_engine empty_engine"
  by (simp add: positive_engine_def empty_engine_def)

lemma positive_engine_lookup:
  "positive_engine e \<Longrightarrow> directory e k = Some a \<Longrightarrow> positive_items (cart a)"
  by (auto simp: positive_engine_def ran_def)

lemma positive_engine_upd:
  assumes "positive_engine e" and "positive_items (cart a)"
  shows "positive_engine (e\<lparr>directory := (directory e)(k \<mapsto> a)\<rparr>)"
  using assms ran_upd_subset [of "directory e" k a]
  by (auto simp: positive_engine_def)

lemma create_or_attach_positive:
  assumes "positive_engine e" and "create_or_attach e sid = (a, e1)"
  shows "positive_items (cart a) \<and> positive_engine e1"
proof (cases "directory e sid")
  case None
  with assms(2) have a: "a = new_actor (created e)"
    and e1: "e1 = e\<lparr>directory := (directory e)(sid \<mapsto> new_actor (created e)),
                    created := created e + 1\<rparr>"
    by (auto simp add: create_or_attach_def)
  have pa: "positive_items (cart a)"
    by (simp add: a new_actor_def positive_items_empty)
  from positive_engine_upd [OF assms(1) pa, of sid]
  have "positive_engine e1"
    by (simp add: e1 a positive_engine_def)
  with pa show ?thesis by simp
next
  case (Some a0)
  with assms(2) have "a = a0" "e1 = e"
    by (simp_all add: create_or_attach_def)
  with assms(1) Some positive_engine_lookup show ?thesis by blast
qed

lemma update_positive:
  assumes "workflowClient g = cart_engine" and "positive_engine e"
    and "updateWithStartCart g actionType itemID e = (out, e')"
  shows "positive_engine e' \<and> (\<forall>s. out = Returned s \<longrightarrow> positive_items s)"
proof (cases "parse_command [actionType, itemID]")
  case None
  with assms show ?thesis
    by (auto simp add: updateWithStartCart_def updateWithStartOptions_def cart_engine_def
        engine_UpdateWithStartWorkflow_def)
next
  case (Some c)
  obtain a e1 where ca: "create_or_attach e (sessionId g) = (a, e1)"
    by (cases "create_or_attach e (sessionId g)")
  obtain res a1 where ap: "apply_command (drain a) c = (res, a1)"
    by (cases "apply_command (drain a) c")
  from create_or_attach_positive [OF assms(2) ca]
  have pa: "positive_items (cart a)" and pe1: "positive_engine e1"
    by simp_all
  from apply_command_positive [OF drain_positive [OF pa] ap]
  have pa1: "positive_items (cart a1)" and pres: "\<forall>s. res = Inr s \<longrightarrow> positive_items s"
    by simp_all
  from engine_update [OF assms(1) Some ca ap] assms(3)
  have out: "out = (case res of
               Inl err \<Rightarrow> Fatalln [Str ''Error obtaining update result:'', Err err]
             | Inr s \<Rightarrow> Returned s)"
    and e': "e' = e1\<lparr>directory := (directory e1)(sessionId g \<mapsto> a1)\<rparr>"
    by simp_all
  from positive_engine_upd [OF pe1 pa1] e' have "positive_engine e'" by simp
  moreover from out pres have "\<forall>s. out = Returned s \<longrightarrow> positive_items s"
    by (cases res) simp_all
  ultimately show ?thesis by simp
qed

lemma checkout_positive:
  assumes "workflowClient g = cart_engine" and "positive_engine e"
  shows "positive_engine (snd (actionHandler_switch g ''checkout'' r e))"
proof (cases "directory e (sessionId g)")
  case None
  with assms show ?thesis by (simp add: engine_checkout)
next
  case (Some a)
  from positive_engine_lookup [OF assms(2) Some]
  have "positive_items (cart (a\<lparr>queue := queue a @ [CmdCheckout]\<rparr>))" by simp
  from positive_engine_upd [OF assms(2) this] assms Some show ?thesis
    by (simp add: engine_checkout)
qed

lemma switch_positive:
  assumes "workflowClient g = cart_engine" and "positive_engine e"
    and "actionHandler_switch g actionType r e = (out, e')"
  shows "positive_engine e'"
proof (cases "actionType = ''checkout''")
  case True
  with checkout_positive [OF assms(1,2), of r] assms(3) show ?thesis by simp
next
  case False
  show ?thesis
  proof (cases "actionType = ''add'' \<or> actionType = ''remove'' \<or> actionType = ''list''")
    case True
    obtain o1 e1 where u: "updateWithStartCart g actionType (Query_Get r ''itemID'') e = (o1, e1)"
      by (cases "updateWithStartCart g actionType (Query_Get r ''itemID'') e")
    with assms(3) False True have "e' = e1"
      by (cases o1) (simp_all add: actionHandler_switch_def)
    with update_positive [OF assms(1,2) u] show ?thesis by simp
  next
    case other: False
    with assms(3) False have "e' = e" by (simp add: actionHandler_switch_def)
    with assms(2) show ?thesis by simp
  qed
qed

lemma listHandler_positive:
  assumes "workflowClient g = cart_engine" and "positive_engine e"
    and "listHandler g e = (out, e')"
  shows "positive_engine e' \<and> (\<forall>s. out = Returned (CartPage s) \<longrightarrow> positive_items s)"
proof -
  obtain o1 e1 where u: "updateWithStartCart g ''list'' [] e = (o1, e1)"
    by (cases "updateWithStartCart g ''list'' [] e")
  with assms(3) have "e' = e1"
    and "out = (case o1 of Fatalln m \<Rightarrow> Fatalln m | Returned s \<Rightarrow> Returned (CartPage s))"
    by (cases o1; simp add: listHandler_def)+
  with update_positive [OF assms(1,2) u] show ?thesis
    by (cases o1) auto
qed

lemma actionHandler_positive:
  assumes "workflowClient g = cart_engine" and "positive_engine e"
    and "actionHandler g r e = (out, e')"
  shows "positive_engine e' \<and> (\<forall>s. out = Returned (CartPage s) \<longrightarrow> positive_items s)"
proof -
  obtain o1 e1 where sw: "actionHandler_switch g (Query_Get r ''type'') r e = (o1, e1)"
    by (cases "actionHandler_switch g (Query_Get r ''type'') r e")
  have p1: "positive_engine e1"
    by (rule switch_positive [OF assms(1,2) sw])
  show ?thesis
  proof (cases o1)
    case (Fatalln m)
    with assms(3) sw p1 show ?thesis by (auto simp add: actionHandler_def)
  next
    case (Returned u)
    show ?thesis
    proof (cases "Query_Get r ''type'' = ''list''")
      case True
      with assms(3) sw Returned p1 show ?thesis by (auto simp add: actionHandler_def)
    next
      case False
      with assms(3) sw Returned have "listHandler g e1 = (out, e')"
        by (simp add: actionHandler_def)
      from listHandler_positive [OF assms(1) p1 this] show ?thesis .
    qed
  qed
qed

lemma route_positive:
  assumes "workflowClient g = cart_engine" and "positive_engine e"
    and "route g r e = (out, e')"
  shows "positive_engine e' \<and> (\<forall>s. out = Returned (CartPage s) \<longrightarrow> positive_items s)"
  using assms actionHandler_positive [of g e r out e'] listHandler_positive [of g e out e']
  by (auto simp add: route_def split: if_splits)

lemma serve_positive:
  assumes "workflowClient g = cart_engine" and "positive_engine e"
    and "serve g rs e = (ps, ex, e')"
  shows "positive_engine e' \<and> (\<forall>s. CartPage s \<in> set ps \<longrightarrow> positive_items s)"
  using assms(2,3)
proof (induction rs arbitrary: e ps ex e')
  case Nil
  then show ?case by simp
next
  case (Cons r rs)
  obtain o1 e1 where rt: "route g r e = (o1, e1)"
    by (cases "route g r e")
  from route_positive [OF assms(1) Cons.prems(1) rt]
  have p1: "positive_engine e1" and pg: "\<forall>s. o1 = Returned (CartPage s) \<longrightarrow> positive_items s"
    by simp_all
  show ?case
  proof (cases o1)
    case (Fatalln m)
    with Cons.prems(2) rt p1 show ?thesis by simp
  next
    case (Returned p)
    obtain ps2 ex2 e2 where sv: "serve g rs e1 = (ps2, ex2, e2)"
      by (cases "serve g rs e1") auto
    with Cons.prems(2) rt Returned have eq: "ps = p # ps2" "e' = e2" by simp_all
    from Cons.IH [OF p1 sv] pg Returned eq show ?thesis by auto
  qed
qed

text \<open>
  Claim C8. Every snapshot a caller can observe has only strictly positive
  quantities: every answer an actor gives over any history of add, remove, list
  and checkout commands from its creation, every cart page the front end writes
  over any sequence of requests from an engine with no actors, and every
  snapshot \<open>updateWithStartCart\<close> returns from an engine that satisfies the
  invariant. A quantity that reaches 0 removes the key.
\<close>

theorem snapshots_positive:
  "(apply_commands (new_actor n) cs = (rs, a') \<longrightarrow>
      (\<forall>s. Inr s \<in> set rs \<longrightarrow> positive_items s) \<and> positive_items (cart a'))
   \<and> (workflowClient g = cart_engine \<and> serve g rqs empty_engine = (ps, ex, e') \<longrightarrow>
      (\<forall>s. CartPage s \<in> set ps \<longrightarrow> positive_items s) \<and> positive_engine e')
   \<and> (workflowClient g = cart_engine \<and> positive_engine e
        \<and> updateWithStartCart g actionType itemID e = (Returned s1, e1) \<longrightarrow>
      positive_items s1)
   \<and> (Items s2 x = Some 1 \<longrightarrow> Items (cart_remove s2 x) x = None)"
proof -
  have "positive_items (cart (new_actor n))"
    by (simp add: new_actor_def positive_items_empty)
  from apply_commands_positive [OF this, of cs rs a']
  have 1: "apply_commands (new_actor n) cs = (rs, a') \<longrightarrow>
      (\<forall>s. Inr s \<in> set rs \<longrightarrow> positive_items s) \<and> positive_items (cart a')"
    by blast
  from serve_positive [OF _ positive_engine_empty, of g rqs ps ex e']
  have 2: "workflowClient g = cart_engine \<and> serve g rqs empty_engine = (ps, ex, e') \<longrightarrow>
      (\<forall>s. CartPage s \<in> set ps \<longrightarrow> positive_items s) \<and> positive_engine e'"
    by blast
  from update_positive [of g e actionType itemID "Returned s1" e1]
  have 3: "workflowClient g = cart_engine \<and> positive_engine e
        \<and> updateWithStartCart g actionType itemID e = (Returned s1, e1) \<longrightarrow> positive_items s1"
    by blast
  have 4: "Items s2 x = Some 1 \<longrightarrow> Items (cart_remove s2 x) x = None"
    by (simp add: cart_remove_def)
  from 1 2 3 4 show ?thesis by blast
qed


theorem snapshots_positive_witness:
  "serve (globals cart_engine \<lparr>TaskQueueName = ''q'', CartUpdateName = ''u''\<rparr> ''42'')
     [\<lparr>path = ''/action'', query = [(''type'', ''add''), (''itemID'', ''apple'')]\<rparr>,
      \<lparr>path = ''/action'', query = [(''type'', ''add''), (''itemID'', ''apple'')]\<rparr>,
      \<lparr>path = ''/action'', query = [(''type'', ''remove''), (''itemID'', ''apple'')]\<rparr>,
      \<lparr>path = ''/action'', query = [(''type'', ''remove''), (''itemID'', ''apple'')]\<rparr>]
     empty_engine
   = ([CartPage \<lparr>Items = [''apple'' \<mapsto> 1]\<rparr>, CartPage \<lparr>Items = [''apple'' \<mapsto> 2]\<rparr>,
       CartPage \<lparr>Items = [''apple'' \<mapsto> 1]\<rparr>, CartPage \<lparr>Items = Map.empty\<rparr>],
      None,
      \<lparr>directory = [''session-42'' \<mapsto>
         \<lparr>cart = \<lparr>Items = Map.empty\<rparr>, lifecycle = Active, queue = [], run = 0\<rparr>],
       created = 1\<rparr>)
   \<and> positive_items \<lparr>Items = [''apple'' \<mapsto> 2]\<rparr>
   \<and> positive_items \<lparr>Items = Map.empty\<rparr>
   \<and> Items (cart_remove \<lparr>Items = [''apple'' \<mapsto> 1]\<rparr> ''apple'') ''apple'' = None"
proof -
  let ?g = "globals cart_engine \<lparr>TaskQueueName = ''q'', CartUpdateName = ''u''\<rparr> ''42''"
  let ?add = "\<lparr>path = ''/action'', query = [(''type'', ''add''), (''itemID'', ''apple'')]\<rparr>"
  let ?remove = "\<lparr>path = ''/action'', query = [(''type'', ''remove''), (''itemID'', ''apple'')]\<rparr>"
  let ?ps = "[CartPage \<lparr>Items = [''apple'' \<mapsto> 1]\<rparr>, CartPage \<lparr>Items = [''apple'' \<mapsto> 2]\<rparr>,
       CartPage \<lparr>Items = [''apple'' \<mapsto> 1]\<rparr>, CartPage \<lparr>Items = Map.empty\<rparr>]"
  let ?e = "\<lparr>directory = [''session-42'' \<mapsto>
         \<lparr>cart = \<lparr>Items = Map.empty\<rparr>, lifecycle = Active, queue = [], run = 0\<rparr>],
       created = 1\<rparr>"
  have g: "workflowClient ?g = cart_engine"
    by (simp add: globals_def)
  have run: "serve ?g [?add, ?add, ?remove, ?remove] empty_engine = (?ps, None, ?e)"
    by (simp add: front_end_defs engine_defs)
  note all = snapshots_positive [THEN conjunct2, THEN conjunct1, rule_format, OF conjI [OF g run]]
  from all have pages: "\<forall>s. CartPage s \<in> set ?ps \<longrightarrow> positive_items s"
    by blast
  from pages have p2: "positive_items \<lparr>Items = [''apple'' \<mapsto> 2]\<rparr>"
    by simp
  from pages have p0: "positive_items \<lparr>Items = Map.empty\<rparr>"
    by simp
  have one: "Items \<lparr>Items = [''apple'' \<mapsto> 1::int]\<rparr> ''apple'' = Some 1"
    by simp
  note zero = snapshots_positive [THEN conjunct2, THEN conjunct2, THEN conjunct2, rule_format,
      OF one]
  from run p2 p0 zero show ?thesis by simp
qed

section \<open>One session\<close>

text \<open>
  A property of the world that every update and every checkout signal of the
  front end preserves holds after any sequence of requests.
\<close>

lemma serve_invariant:
  assumes upd: "\<And>t i w out w'. P w \<Longrightarrow> updateWithStartCart g t i w = (out, w') \<Longrightarrow> P w'"
    and chk: "\<And>r w out w'. P w \<Longrightarrow> actionHandler_switch g ''checkout'' r w = (out, w') \<Longrightarrow> P w'"
    and "P w" and "serve g rs w = (ps, ex, w')"
  shows "P w'"
proof -
  have lst: "P w' " if "P w" "listHandler g w = (out, w')" for w out w'
  proof -
    obtain o1 w1 where u: "updateWithStartCart g ''list'' [] w = (o1, w1)"
      by (cases "updateWithStartCart g ''list'' [] w")
    with that(2) have "w' = w1" by (cases o1) (simp_all add: listHandler_def)
    with upd [OF that(1) u] show ?thesis by simp
  qed
  have sw: "P w'" if "P w" "actionHandler_switch g t r w = (out, w')" for w out w' t r
  proof (cases "t = ''checkout''")
    case True
    with chk that show ?thesis by blast
  next
    case False
    show ?thesis
    proof (cases "t = ''add'' \<or> t = ''remove'' \<or> t = ''list''")
      case True
      obtain o1 w1 where u: "updateWithStartCart g t (Query_Get r ''itemID'') w = (o1, w1)"
        by (cases "updateWithStartCart g t (Query_Get r ''itemID'') w")
      with that(2) False True have "w' = w1"
        by (cases o1) (simp_all add: actionHandler_switch_def)
      with upd [OF that(1) u] show ?thesis by simp
    next
      case other: False
      with that False show ?thesis by (simp add: actionHandler_switch_def)
    qed
  qed
  have act: "P w'" if "P w" "actionHandler g r w = (out, w')" for w out w' r
  proof -
    obtain o1 w1 where s: "actionHandler_switch g (Query_Get r ''type'') r w = (o1, w1)"
      by (cases "actionHandler_switch g (Query_Get r ''type'') r w")
    from sw [OF that(1) s] have p1: "P w1" .
    show ?thesis
    proof (cases o1)
      case (Fatalln m)
      with that(2) s p1 show ?thesis by (auto simp add: actionHandler_def)
    next
      case (Returned u)
      show ?thesis
      proof (cases "Query_Get r ''type'' = ''list''")
        case True
        with that(2) s Returned p1 show ?thesis by (auto simp add: actionHandler_def)
      next
        case False
        with that(2) s Returned have "listHandler g w1 = (out, w')"
          by (simp add: actionHandler_def)
        from lst [OF p1 this] show ?thesis .
      qed
    qed
  qed
  have rt: "P w'" if "P w" "route g r w = (out, w')" for w out w' r
    using that act [of w r out w'] lst [of w out w']
    by (auto simp add: route_def split: if_splits)
  from assms(3,4) show ?thesis
  proof (induction rs arbitrary: w ps ex w')
    case Nil
    then show ?case by simp
  next
    case (Cons r rs)
    obtain o1 w1 where r1: "route g r w = (o1, w1)"
      by (cases "route g r w")
    from rt [OF Cons.prems(1) r1] have p1: "P w1" .
    show ?case
    proof (cases o1)
      case (Fatalln m)
      with Cons.prems(2) r1 p1 show ?thesis by simp
    next
      case (Returned p)
      obtain ps2 ex2 w2 where sv: "serve g rs w1 = (ps2, ex2, w2)"
        by (cases "serve g rs w1") auto
      with Cons.prems(2) r1 Returned have "w' = w2" by simp
      with Cons.IH [OF p1 sv] show ?thesis by simp
    qed
  qed
qed

lemma one_actor_update:
  assumes "workflowClient g = cart_engine" and "one_actor (sessionId g) e"
    and "updateWithStartCart g t i e = (out, e')"
  shows "one_actor (sessionId g) e'"
proof (cases "parse_command [t, i]")
  case None
  with assms show ?thesis
    by (auto simp add: updateWithStartCart_def updateWithStartOptions_def cart_engine_def
        engine_UpdateWithStartWorkflow_def)
next
  case (Some c)
  show ?thesis
  proof (cases "directory e (sessionId g)")
    case None
    from engine_update_new [OF assms(1) Some None] assms(2,3) None show ?thesis
      by (auto simp add: one_actor_def)
  next
    case (Some a)
    from engine_update_existing [OF assms(1) \<open>parse_command [t, i] = Some c\<close> Some] assms(2,3) Some
    show ?thesis
      by (auto simp add: one_actor_def)
  qed
qed

lemma one_actor_checkout:
  assumes "workflowClient g = cart_engine" and "one_actor (sessionId g) e"
    and "actionHandler_switch g ''checkout'' r e = (out, e')"
  shows "one_actor (sessionId g) e'"
  using assms
  by (auto simp add: engine_checkout one_actor_def split: option.splits if_splits)

lemma one_actor_serve:
  assumes "workflowClient g = cart_engine" and "serve g rs empty_engine = (ps, ex, e')"
  shows "one_actor (sessionId g) e'"
proof (rule serve_invariant [where P = "one_actor (sessionId g)" and g = g, OF _ _ _ assms(2)])
  show "one_actor (sessionId g) empty_engine"
    by (simp add: one_actor_def empty_engine_def)
qed (use assms(1) one_actor_update one_actor_checkout in blast)+

text \<open>
  Claim C9. For the whole life of the process (from \<open>main\<close> on, over any
  sequence of requests to either route, whatever the client answers), every
  call the front end makes (update-with-start for list, add and remove, the
  checkout signal) addresses the one session identifier that \<open>newSession\<close>
  produced at program start; no request gets a session of its own. Over the
  engine, started with no actors, the process therefore never has more than
  one actor, the one registered under that identifier, which all requests
  share.
\<close>

theorem single_session:
  "(run_main (Inr (recording c)) pkg uuid rs (w, []) = Some (ps, ex, (w', l)) \<longrightarrow>
      list_all (addresses (newSession uuid)) l)
   \<and> (run_main (Inr cart_engine) pkg uuid rs empty_engine = Some (ps1, ex1, e1) \<longrightarrow>
      one_actor (newSession uuid) e1)"
proof -
  have 1: "list_all (addresses (newSession uuid)) l"
    if "run_main (Inr (recording c)) pkg uuid rs (w, []) = Some (ps, ex, (w', l))"
  proof -
    from that have "serve (globals (recording c) pkg uuid) rs (w, []) = (ps, ex, (w', l))"
      by (simp add: run_main_def)
    from serve_calls [OF _ this, of c] show ?thesis
      by (simp add: globals_def extends_def)
  qed
  have 2: "one_actor (newSession uuid) e1"
    if "run_main (Inr cart_engine) pkg uuid rs empty_engine = Some (ps1, ex1, e1)"
  proof -
    from that have "serve (globals cart_engine pkg uuid) rs empty_engine = (ps1, ex1, e1)"
      by (simp add: run_main_def)
    from one_actor_serve [OF _ this] show ?thesis
      by (simp add: globals_def)
  qed
  from 1 2 show ?thesis by blast
qed

lemma two_requests_engine_run:
  "run_main (Inr cart_engine) \<lparr>TaskQueueName = ''q'', CartUpdateName = ''u''\<rparr> ''42''
     [\<lparr>path = ''/action'', query = [(''type'', ''add''), (''itemID'', ''apple'')]\<rparr>,
      \<lparr>path = ''/action'', query = [(''type'', ''checkout'')]\<rparr>]
     empty_engine
   = Some ([CartPage \<lparr>Items = [''apple'' \<mapsto> 1]\<rparr>],
           Some [Str ''Error obtaining update result:'', Err SessionClosed],
           \<lparr>directory = [''session-42'' \<mapsto>
                \<lparr>cart = \<lparr>Items = [''apple'' \<mapsto> 1]\<rparr>, lifecycle = CheckedOut,
                 queue = [], run = 0\<rparr>],
              created = 1\<rparr>)"
  by (simp add: front_end_defs engine_defs)

theorem single_session_witness:
  "list_all (addresses ''session-42'')
     [UpdateWithStartCall (updateWithStartOptions
        (globals (recording cart_engine)
           \<lparr>TaskQueueName = ''q'', CartUpdateName = ''u''\<rparr> ''42'') ''add'' ''apple''),
      GetCall,
      UpdateWithStartCall (updateWithStartOptions
        (globals (recording cart_engine)
           \<lparr>TaskQueueName = ''q'', CartUpdateName = ''u''\<rparr> ''42'') ''list'' []),
      GetCall,
      SignalCall ''session-42'' [] ''checkout'',
      UpdateWithStartCall (updateWithStartOptions
        (globals (recording cart_engine)
           \<lparr>TaskQueueName = ''q'', CartUpdateName = ''u''\<rparr> ''42'') ''list'' []),
      GetCall]
   \<and> one_actor ''session-42''
       \<lparr>directory = [''session-42'' \<mapsto>
          \<lparr>cart = \<lparr>Items = [''apple'' \<mapsto> 1]\<rparr>, lifecycle = CheckedOut,
           queue = [], run = 0\<rparr>],
        created = 1\<rparr>"
  using single_session [THEN conjunct1, rule_format, OF two_requests_run]
    single_session [THEN conjunct2, rule_format, OF two_requests_engine_run]
  by (simp add: newSession_def)

end
